theory Spec2Isabelle
  imports Main "HOL-Library.Multiset"
begin

section \<open>JavaScript strings\<close>

text \<open>
  Slide texts are JavaScript strings: sequences of UTF-16 code units. They are modelled
  as lists of code-unit values, because the bullet prefix of \<open>buildSlideBodyText\<close> lies
  outside the 8-bit range of \<^typ>\<open>char\<close>. Object identifiers, placeholder types and
  error messages are only compared and tested for emptiness; they are HOL strings.
\<close>

type_synonym jstring = "nat list"

definition js :: "string \<Rightarrow> jstring" where
  "js s = map of_char s"

text \<open>\<open>String.prototype.trim\<close> removes WhiteSpace and LineTerminator code points.\<close>

definition isWhiteSpace :: "nat \<Rightarrow> bool" where
  "isWhiteSpace c \<longleftrightarrow>
     c = 9 \<or> c = 10 \<or> c = 11 \<or> c = 12 \<or> c = 13 \<or> c = 32 \<or> c = 160 \<or> c = 5760 \<or>
     (8192 \<le> c \<and> c \<le> 8202) \<or> c = 8232 \<or> c = 8233 \<or> c = 8239 \<or> c = 8287 \<or>
     c = 12288 \<or> c = 65279"

definition trim :: "jstring \<Rightarrow> jstring" where
  "trim s = rev (dropWhile isWhiteSpace (rev (dropWhile isWhiteSpace s)))"

text \<open>\<open>Array.prototype.join\<close> on an array of strings.\<close>

fun join :: "jstring \<Rightarrow> jstring list \<Rightarrow> jstring" where
  "join sep [] = []"
| "join sep [x] = x"
| "join sep (x # y # ys) = x @ sep @ join sep (y # ys)"

text \<open>A value is truthy as a string when it is neither absent nor empty.\<close>

fun truthy :: "'a list option \<Rightarrow> bool" where
  "truthy None = False"
| "truthy (Some s) = (s \<noteq> [])"

section \<open>Slide content (schemas.ts)\<close>

record SlideContent =
  slideNumber :: "int option"
  title :: "jstring option"
  subtitle :: "jstring option"
  body :: "jstring option"
  bullets :: "jstring list option"
  slide_notes :: "jstring option"

text \<open>The object \<open>{}\<close> that stands in for a missing slide.\<close>

definition emptySlide :: SlideContent where
  "emptySlide = \<lparr>slideNumber = None, title = None, subtitle = None, body = None,
     bullets = None, slide_notes = None\<rparr>"

record CreatePresentationFromContent =
  deck_title :: jstring
  slides :: "SlideContent list"
  templatePresentationId :: "string option"

section \<open>buildSlideBodyText\<close>

text \<open>
  The characters of the template literal in front of \<open>${b.trim()}\<close>, as the source file
  has them: U+00E2, U+20AC, U+00A2 and a space.
\<close>

definition bulletPrefix :: jstring where
  "bulletPrefix = [226, 8364, 162, 32]"

text \<open>The bullet glyph U+2022 followed by a space.\<close>

definition bulletGlyphPrefix :: jstring where
  "bulletGlyphPrefix = [8226, 32]"

definition pushTrimmed :: "jstring option \<Rightarrow> jstring list \<Rightarrow> jstring list" where
  "pushTrimmed field parts =
     (case field of
        None \<Rightarrow> parts
      | Some s \<Rightarrow> if trim s \<noteq> [] then parts @ [trim s] else parts)"

definition pushBullets :: "jstring list option \<Rightarrow> jstring list \<Rightarrow> jstring list" where
  "pushBullets field parts =
     (case field of
        None \<Rightarrow> parts
      | Some bs \<Rightarrow>
          if length bs \<noteq> 0 then parts @ [join [10] (map (\<lambda>b. bulletPrefix @ trim b) bs)]
          else parts)"

definition buildSlideBodyText :: "SlideContent \<Rightarrow> jstring" where
  "buildSlideBodyText slide =
     (let parts = [];
          parts = pushTrimmed (subtitle slide) parts;
          parts = pushTrimmed (body slide) parts;
          parts = pushBullets (bullets slide) parts
      in join [10, 10] parts)"

section \<open>Pages, requests, errors and the remote services\<close>

text \<open>
  Pages as \<open>presentations.get\<close> returns them under the field mask
  \<open>slides(objectId,pageElements(objectId,shape(placeholder(type))))\<close>. Every field of the
  Slides API schema is optional. \<open>placeholderType\<close> is \<open>el.shape?.placeholder?.type\<close>.
\<close>

record PageElement =
  objectId :: "string option"
  placeholderType :: "string option"

record Page =
  page_objectId :: "string option"
  pageElements :: "PageElement list option"

record PlaceholderInfo =
  ph_objectId :: string
  ph_type :: string

text \<open>
  The requests of \<open>Schema$Request\<close> that the tool builds. \<open>DeleteText\<close> always has the
  text range \<open>ALL\<close>; \<open>InsertText\<close> carries object, text and insertion index;
  \<open>CreateSlide\<close> carries object and insertion index (layout \<open>BLANK\<close>); \<open>CreateShape\<close>
  carries object, page, width, height, translateX and translateY (a \<open>TEXT_BOX\<close>, in points,
  scale 1).
\<close>

datatype request =
    DuplicateObject string
  | DeleteObject string
  | DeleteText string
  | InsertText string jstring nat
  | CreateSlide string nat
  | CreateShape string string nat nat nat nat

text \<open>
  One constructor for each \<open>throw new Error(...)\<close> of the tool, and \<open>ApiError\<close> for a
  rejected call of the Drive or Slides client.
\<close>

datatype error =
    DriveCopyNoFileId
  | TemplateTooFewSlides
  | ContentLayoutMissingObjectId
  | RestructuringNotEnoughSlides
  | NoPresentationId
  | ApiError string

fun message :: "error \<Rightarrow> string" where
  "message DriveCopyNoFileId = ''Drive copy did not return file id''"
| "message TemplateTooFewSlides =
     ''Default template must have at least 3 slides: title, content layout, thank you''"
| "message ContentLayoutMissingObjectId = ''Template content layout slide missing objectId''"
| "message RestructuringNotEnoughSlides =
     ''Template restructuring did not produce enough slides''"
| "message NoPresentationId = ''Google API did not return presentationId''"
| "message (ApiError m) = m"

text \<open>
  The error taxonomy of the specification, read onto the throw sites: a
  \<open>ProvisionError\<close> is a create or copy without identifier or a template with too few
  pages; a \<open>StructureError\<close> is a page count after the structural batch below the
  expected one.
\<close>

definition spec_ProvisionError :: "error \<Rightarrow> bool" where
  "spec_ProvisionError e \<longleftrightarrow>
     e = DriveCopyNoFileId \<or> e = TemplateTooFewSlides \<or> e = NoPresentationId"

definition spec_StructureError :: "error \<Rightarrow> bool" where
  "spec_StructureError e \<longleftrightarrow> e = RestructuringNotEnoughSlides"

text \<open>The calls made on the Drive and Slides clients, in the order they are issued.\<close>

datatype call =
    FilesCopy string jstring
  | PresentationsCreate jstring
  | PresentationsGet string
  | BatchUpdate string "request list"

text \<open>
  The remote services answer each call site once per run, so a run is determined by one
  answer per call site: \<open>copyRes\<close> is \<open>copyRes.data.id\<close>, \<open>createRes\<close> is
  \<open>createRes.data.presentationId\<close>, \<open>getRes\<close> and \<open>getRes2\<close> are the \<open>data.slides\<close> of
  the first and second \<open>presentations.get\<close>, \<open>batchRes\<close> and \<open>fillRes\<close> tell whether the
  first and second \<open>batchUpdate\<close> reject. \<open>Inl\<close> is a rejected call.
\<close>

record remote =
  copyRes :: "error + string option"
  createRes :: "error + string option"
  getRes :: "error + Page list option"
  batchRes :: "error option"
  getRes2 :: "error + Page list option"
  fillRes :: "error option"

text \<open>
  What the module takes from its surroundings: the environment variable
  \<open>GOOGLE_SLIDES_TEMPLATE_ID\<close> and the function \<open>handleGoogleApiError\<close> of
  \<open>utils/errorHandler\<close>, a parameter here.
\<close>

record env =
  GOOGLE_SLIDES_TEMPLATE_ID :: "string option"
  handleGoogleApiError :: "error \<Rightarrow> string \<Rightarrow> error"

definition DEFAULT_TEMPLATE_ID :: "env \<Rightarrow> string" where
  "DEFAULT_TEMPLATE_ID e =
     (case GOOGLE_SLIDES_TEMPLATE_ID e of Some t \<Rightarrow> t | None \<Rightarrow> ''<YOUR_TEMPLATE_ID>'')"

definition TEMPLATE_CONTENT_LAYOUT_INDEX :: nat where
  "TEMPLATE_CONTENT_LAYOUT_INDEX = 1"

definition PAGE_WIDTH_PT :: nat where "PAGE_WIDTH_PT = 720"
definition PAGE_HEIGHT_PT :: nat where "PAGE_HEIGHT_PT = 540"
definition MARGIN_PT :: nat where "MARGIN_PT = 40"
definition TITLE_HEIGHT_PT :: nat where "TITLE_HEIGHT_PT = 60"
definition BODY_TOP_PT :: nat where "BODY_TOP_PT = 120"
definition CONTENT_WIDTH_PT :: nat where "CONTENT_WIDTH_PT = PAGE_WIDTH_PT - 2 * MARGIN_PT"

record toolResult =
  presentationId :: string
  editUrl :: string
  out_title :: jstring

definition mkEditUrl :: "string \<Rightarrow> string" where
  "mkEditUrl pid = ''https://docs.google.com/presentation/d/'' @ pid @ ''/edit''"

section \<open>getTitleAndBodyPlaceholders\<close>

text \<open>One iteration of the \<open>for (const el of pageElements)\<close> loop on \<open>(title, body)\<close>.\<close>

definition scanElement ::
  "PageElement \<Rightarrow> PlaceholderInfo option \<times> PlaceholderInfo option
     \<Rightarrow> PlaceholderInfo option \<times> PlaceholderInfo option" where
  "scanElement el acc =
     (case objectId el of
        None \<Rightarrow> acc
      | Some oid \<Rightarrow>
          if oid = [] then acc
          else
            (let ty = placeholderType el;
                 t = (if ty = Some ''TITLE''
                      then Some \<lparr>ph_objectId = oid, ph_type = ''TITLE''\<rparr> else fst acc);
                 b = (if ty = Some ''BODY'' \<or> ty = Some ''SUBTITLE''
                      then (case snd acc of
                              Some b0 \<Rightarrow> Some b0
                            | None \<Rightarrow>
                                Some \<lparr>ph_objectId = oid,
                                  ph_type = (case ty of Some x \<Rightarrow> x | None \<Rightarrow> ''BODY'')\<rparr>)
                      else snd acc)
             in (t, b)))"

definition getTitleAndBodyPlaceholders ::
  "PageElement list option \<Rightarrow> PlaceholderInfo option \<times> PlaceholderInfo option" where
  "getTitleAndBodyPlaceholders pageElements' =
     (case pageElements' of
        None \<Rightarrow> (None, None)
      | Some els \<Rightarrow>
          (let acc = fold scanElement els (None, None)
           in if snd acc = None \<and> length els \<ge> 2 \<and> truthy (objectId (els ! 1))
              then (fst acc,
                    Some \<lparr>ph_objectId = (case objectId (els ! 1) of Some oid \<Rightarrow> oid | None \<Rightarrow> []),
                      ph_type = ''BODY''\<rparr>)
              else acc))"

section \<open>createFromTemplate\<close>

text \<open>\<open>data.slides ?? []\<close>.\<close>

definition slidesOf :: "Page list option \<Rightarrow> Page list" where
  "slidesOf s = (case s of Some x \<Rightarrow> x | None \<Rightarrow> [])"

text \<open>\<open>xs[i]?.pageElements\<close>: absent when the index is out of range.\<close>

definition pageElementsAt :: "Page list \<Rightarrow> nat \<Rightarrow> PageElement list option" where
  "pageElementsAt xs i = (if i < length xs then pageElements (xs ! i) else None)"

text \<open>\<open>slides[i] ?? {}\<close>: the empty slide when the index is out of range.\<close>

definition slideAt :: "SlideContent list \<Rightarrow> nat \<Rightarrow> SlideContent" where
  "slideAt xs i = (if i < length xs then xs ! i else emptySlide)"

text \<open>The loop \<open>for (let i = 0; i < duplicateCount; i++)\<close>.\<close>

definition duplicateLoop :: "string \<Rightarrow> int \<Rightarrow> request list \<Rightarrow> request list" where
  "duplicateLoop contentLayoutSlideId duplicateCount requests =
     fold (\<lambda>i rs. rs @ [DuplicateObject contentLayoutSlideId]) [0..<nat duplicateCount] requests"

text \<open>The loop \<open>for (let i = 2; i < templateSlides.length - 1; i++)\<close>.\<close>

definition deleteLoop :: "Page list \<Rightarrow> request list \<Rightarrow> request list" where
  "deleteLoop templateSlides requests =
     fold (\<lambda>i rs. case page_objectId (templateSlides ! i) of
                     None \<Rightarrow> rs
                   | Some oid \<Rightarrow> if oid \<noteq> [] then rs @ [DeleteObject oid] else rs)
       [2..<nat (int (length templateSlides) - 1)] requests"

definition structuralRequests :: "string \<Rightarrow> nat \<Rightarrow> Page list \<Rightarrow> request list" where
  "structuralRequests contentLayoutSlideId N templateSlides =
     (let requests = [];
          duplicateCount = int N - 1;
          requests = duplicateLoop contentLayoutSlideId duplicateCount requests;
          requests = deleteLoop templateSlides requests
      in requests)"

text \<open>The first slide: only the presentation title.\<close>

definition fillTitleSlide :: "jstring \<Rightarrow> Page list \<Rightarrow> request list \<Rightarrow> request list" where
  "fillTitleSlide title' finalSlides fillRequests =
     (case fst (getTitleAndBodyPlaceholders (pageElementsAt finalSlides 0)) of
        None \<Rightarrow> fillRequests
      | Some titlePh \<Rightarrow>
          fillRequests @ [DeleteText (ph_objectId titlePh),
                          InsertText (ph_objectId titlePh) title' 0])"

text \<open>One iteration of the content loop \<open>for (let i = 0; i < N; i++)\<close>.\<close>

definition fillContentSlide ::
  "SlideContent list \<Rightarrow> Page list \<Rightarrow> nat \<Rightarrow> request list \<Rightarrow> request list" where
  "fillContentSlide slides' finalSlides i fillRequests =
     (let slideIndex = 1 + i;
          slideContent = slideAt slides' i;
          slideTitle = (case title slideContent of Some t \<Rightarrow> trim t | None \<Rightarrow> []);
          slideBody = buildSlideBodyText slideContent;
          phs = getTitleAndBodyPlaceholders (pageElementsAt finalSlides slideIndex);
          fillRequests =
            (case fst phs of
               None \<Rightarrow> fillRequests
             | Some tPh \<Rightarrow>
                 fillRequests @ [DeleteText (ph_objectId tPh),
                                 InsertText (ph_objectId tPh) slideTitle 0]);
          fillRequests =
            (case snd phs of
               None \<Rightarrow> fillRequests
             | Some bPh \<Rightarrow>
                 if slideBody \<noteq> []
                 then fillRequests @ [DeleteText (ph_objectId bPh),
                                      InsertText (ph_objectId bPh) slideBody 0]
                 else fillRequests)
      in fillRequests)"

definition fillRequestsOf :: "jstring \<Rightarrow> SlideContent list \<Rightarrow> Page list \<Rightarrow> request list" where
  "fillRequestsOf title' slides' finalSlides =
     fold (fillContentSlide slides' finalSlides) [0..<length slides']
       (fillTitleSlide title' finalSlides [])"

text \<open>
  The function returns its outcome together with the calls it issued. Every \<open>await\<close> on
  a rejected call and every \<open>throw\<close> ends the run with \<open>Inl\<close>. \<open>restructured\<close> is
  the second half of the function body, from the second \<open>presentations.get\<close> on; it is
  reached with or without a structural \<open>batchUpdate\<close>.
\<close>

definition restructured ::
  "remote \<Rightarrow> CreatePresentationFromContent \<Rightarrow> string \<Rightarrow> call list
     \<Rightarrow> (error + toolResult) \<times> call list" where
  "restructured r args pid calls =
     (let calls = calls @ [PresentationsGet pid]
      in case getRes2 r of
           Inl e \<Rightarrow> (Inl e, calls)
         | Inr slides2 \<Rightarrow>
             (let finalSlides = slidesOf slides2;
                  N = length (slides args);
                  expectedSlides = 1 + N + 1
              in if length finalSlides < expectedSlides
                 then (Inl RestructuringNotEnoughSlides, calls)
                 else
                   (let fillRequests = fillRequestsOf (deck_title args) (slides args) finalSlides;
                        out = \<lparr>presentationId = pid, editUrl = mkEditUrl pid,
                                out_title = deck_title args\<rparr>
                    in if length fillRequests > 0
                       then (case fillRes r of
                               Some e \<Rightarrow> (Inl e, calls @ [BatchUpdate pid fillRequests])
                             | None \<Rightarrow> (Inr out, calls @ [BatchUpdate pid fillRequests]))
                       else (Inr out, calls))))"

definition createFromTemplate ::
  "env \<Rightarrow> remote \<Rightarrow> CreatePresentationFromContent \<Rightarrow> (error + toolResult) \<times> call list" where
  "createFromTemplate ev r args =
     (let templateId = (case templatePresentationId args of
                          Some t \<Rightarrow> t | None \<Rightarrow> DEFAULT_TEMPLATE_ID ev);
          calls = [FilesCopy templateId (deck_title args)]
      in case copyRes r of
           Inl e \<Rightarrow> (Inl e, calls)
         | Inr copyId \<Rightarrow>
             (case copyId of
                None \<Rightarrow> (Inl DriveCopyNoFileId, calls)
              | Some pid \<Rightarrow>
                  if pid = [] then (Inl DriveCopyNoFileId, calls)
                  else
                    (let calls = calls @ [PresentationsGet pid]
                     in case getRes r of
                          Inl e \<Rightarrow> (Inl e, calls)
                        | Inr slides1 \<Rightarrow>
                            (let templateSlides = slidesOf slides1
                             in if length templateSlides < 3
                                then (Inl TemplateTooFewSlides, calls)
                                else
                                  (case page_objectId
                                          (templateSlides ! TEMPLATE_CONTENT_LAYOUT_INDEX) of
                                     None \<Rightarrow> (Inl ContentLayoutMissingObjectId, calls)
                                   | Some contentLayoutSlideId \<Rightarrow>
                                       if contentLayoutSlideId = []
                                       then (Inl ContentLayoutMissingObjectId, calls)
                                       else
                                         (let N = length (slides args);
                                              requests = structuralRequests
                                                contentLayoutSlideId N templateSlides
                                          in if length requests > 0
                                             then (case batchRes r of
                                                     Some e \<Rightarrow>
                                                       (Inl e, calls @ [BatchUpdate pid requests])
                                                   | None \<Rightarrow>
                                                       restructured r args pid
                                                         (calls @ [BatchUpdate pid requests]))
                                             else restructured r args pid calls))))))"

section \<open>createPresentationFromContent\<close>

text \<open>The decimal digits of a number, as a template literal prints \<open>${i + 1}\<close>.\<close>

function decimal :: "nat \<Rightarrow> string" where
  "decimal n =
     (if n < 10 then [''0123456789'' ! n]
      else decimal (n div 10) @ [''0123456789'' ! (n mod 10)])"
  by pat_completeness auto
termination
  by (relation "measure id") auto

declare decimal.simps [simp del]

text \<open>
  One iteration of the inline scan of the first slide, on
  \<open>(titleObjectId, bodyObjectId)\<close>.
\<close>

definition scanInline ::
  "PageElement \<Rightarrow> string option \<times> string option \<Rightarrow> string option \<times> string option" where
  "scanInline el acc =
     (let ty = placeholderType el;
          titleObjectId = (if ty = Some ''TITLE'' then objectId el else fst acc);
          bodyObjectId =
            (if ty = Some ''BODY'' \<or> ty = Some ''SUBTITLE''
             then (case objectId el of Some oid \<Rightarrow> Some oid | None \<Rightarrow> snd acc)
             else snd acc)
      in (titleObjectId, bodyObjectId))"

definition inlinePlaceholders :: "PageElement list \<Rightarrow> string option \<times> string option" where
  "inlinePlaceholders els =
     (let acc = fold scanInline els (None, None)
      in if \<not> truthy (snd acc) \<and> length els \<ge> 2
         then (fst acc, objectId (els ! 1))
         else acc)"

text \<open>The requests for the first slide, which reuses the first page of the new document.\<close>

definition firstSlideRequests ::
  "jstring \<Rightarrow> SlideContent list \<Rightarrow> PageElement list \<Rightarrow> request list" where
  "firstSlideRequests title' slides' els =
     (let phs = inlinePlaceholders els;
          requests = [];
          firstTitle = (case slides' of
                          [] \<Rightarrow> title'
                        | first # _ \<Rightarrow> (case title first of Some t \<Rightarrow> trim t | None \<Rightarrow> title'));
          firstBody = buildSlideBodyText (slideAt slides' 0);
          requests = (case fst phs of
                        None \<Rightarrow> requests
                      | Some titleObjectId \<Rightarrow>
                          if titleObjectId \<noteq> []
                          then requests @ [InsertText titleObjectId firstTitle 0]
                          else requests);
          requests = (case snd phs of
                        None \<Rightarrow> requests
                      | Some bodyObjectId \<Rightarrow>
                          if bodyObjectId \<noteq> [] \<and> firstBody \<noteq> []
                          then requests @ [InsertText bodyObjectId firstBody 0]
                          else requests)
      in requests)"

text \<open>One iteration of the loop \<open>for (let i = 1; i < slides.length; i++)\<close>.\<close>

definition blankSlide :: "SlideContent list \<Rightarrow> nat \<Rightarrow> request list \<Rightarrow> request list" where
  "blankSlide slides' i requests =
     (let slide = slides' ! i;
          slideId = ''slide_'' @ decimal (i + 1);
          titleBoxId = ''title_'' @ decimal (i + 1);
          bodyBoxId = ''body_'' @ decimal (i + 1);
          slideTitle = (case title slide of Some t \<Rightarrow> trim t | None \<Rightarrow> []);
          slideBody = buildSlideBodyText slide;
          requests = requests @ [CreateSlide slideId i];
          requests = requests @ [CreateShape titleBoxId slideId CONTENT_WIDTH_PT TITLE_HEIGHT_PT
                                   MARGIN_PT MARGIN_PT];
          requests = requests @ [CreateShape bodyBoxId slideId CONTENT_WIDTH_PT
                                   (PAGE_HEIGHT_PT - BODY_TOP_PT - MARGIN_PT) MARGIN_PT BODY_TOP_PT];
          requests = (if slideTitle \<noteq> [] then requests @ [InsertText titleBoxId slideTitle 0]
                      else requests);
          requests = (if slideBody \<noteq> [] then requests @ [InsertText bodyBoxId slideBody 0]
                      else requests)
      in requests)"

definition blankRequests ::
  "jstring \<Rightarrow> SlideContent list \<Rightarrow> PageElement list \<Rightarrow> request list" where
  "blankRequests title' slides' els =
     fold (blankSlide slides') [1..<length slides'] (firstSlideRequests title' slides' els)"

text \<open>The body of the \<open>try\<close> block when no Drive client is given.\<close>

definition createBlank ::
  "remote \<Rightarrow> CreatePresentationFromContent \<Rightarrow> (error + toolResult) \<times> call list" where
  "createBlank r args =
     (let calls = [PresentationsCreate (deck_title args)]
      in case createRes r of
           Inl e \<Rightarrow> (Inl e, calls)
         | Inr created \<Rightarrow>
             (case created of
                None \<Rightarrow> (Inl NoPresentationId, calls)
              | Some pid \<Rightarrow>
                  if pid = [] then (Inl NoPresentationId, calls)
                  else
                    (let calls = calls @ [PresentationsGet pid]
                     in case getRes r of
                          Inl e \<Rightarrow> (Inl e, calls)
                        | Inr slides1 \<Rightarrow>
                            (let els = (case pageElementsAt (slidesOf slides1) 0 of
                                          Some x \<Rightarrow> x | None \<Rightarrow> []);
                                 requests = blankRequests (deck_title args) (slides args) els;
                                 out = \<lparr>presentationId = pid, editUrl = mkEditUrl pid,
                                         out_title = deck_title args\<rparr>
                             in if length requests > 0
                                then (case batchRes r of
                                        Some e \<Rightarrow> (Inl e, calls @ [BatchUpdate pid requests])
                                      | None \<Rightarrow> (Inr out, calls @ [BatchUpdate pid requests]))
                                else (Inr out, calls)))))"

text \<open>
  With a Drive client the template path is returned without \<open>await\<close>, so its errors
  leave the function as they are; the errors of the other path go through
  \<open>handleGoogleApiError\<close>.
\<close>

definition createPresentationFromContent ::
  "env \<Rightarrow> remote \<Rightarrow> CreatePresentationFromContent \<Rightarrow> bool
     \<Rightarrow> (error + toolResult) \<times> call list" where
  "createPresentationFromContent ev r args drive =
     (if drive then createFromTemplate ev r args
      else (case createBlank r args of
              (Inl e, calls) \<Rightarrow>
                (Inl (handleGoogleApiError ev e ''create_presentation_from_content''), calls)
            | (Inr out, calls) \<Rightarrow> (Inr out, calls)))"

section \<open>Vocabulary of the properties\<close>

text \<open>An element has an identifier when \<open>objectId\<close> is present and not empty.\<close>

definition hasId :: "PageElement \<Rightarrow> bool" where
  "hasId e = truthy (objectId e)"

definition idOf :: "PageElement \<Rightarrow> string" where
  "idOf e = (case objectId e of Some oid \<Rightarrow> oid | None \<Rightarrow> [])"

definition titleHint :: "PageElement \<Rightarrow> bool" where
  "titleHint e \<longleftrightarrow> placeholderType e = Some ''TITLE''"

definition bodyHint :: "PageElement \<Rightarrow> bool" where
  "bodyHint e \<longleftrightarrow> placeholderType e = Some ''BODY'' \<or> placeholderType e = Some ''SUBTITLE''"

definition hintOf :: "PageElement \<Rightarrow> string" where
  "hintOf e = (case placeholderType e of Some x \<Rightarrow> x | None \<Rightarrow> ''BODY'')"

text \<open>The identifiers of the pages that have one, in page order.\<close>

fun presentIds :: "Page list \<Rightarrow> string list" where
  "presentIds [] = []"
| "presentIds (p # ps) =
     (case page_objectId p of
        None \<Rightarrow> presentIds ps
      | Some oid \<Rightarrow> if oid \<noteq> [] then oid # presentIds ps else presentIds ps)"

definition deleteOf :: "Page \<Rightarrow> request list" where
  "deleteOf p =
     (case page_objectId p of
        None \<Rightarrow> []
      | Some oid \<Rightarrow> if oid \<noteq> [] then [DeleteObject oid] else [])"

text \<open>A \<open>batchUpdate\<close> is called only with a non-empty list of requests.\<close>

definition batchCall :: "string \<Rightarrow> request list \<Rightarrow> call list" where
  "batchCall pid requests = (if length requests > 0 then [BatchUpdate pid requests] else [])"

definition templateIdOf :: "env \<Rightarrow> CreatePresentationFromContent \<Rightarrow> string" where
  "templateIdOf ev args =
     (case templatePresentationId args of Some t \<Rightarrow> t | None \<Rightarrow> DEFAULT_TEMPLATE_ID ev)"

fun isDeleteObject :: "request \<Rightarrow> bool" where
  "isDeleteObject (DeleteObject _) = True"
| "isDeleteObject _ = False"

section \<open>Sample documents and decks\<close>

definition demoEnv :: env where
  "demoEnv = \<lparr>GOOGLE_SLIDES_TEMPLATE_ID = None, handleGoogleApiError = (\<lambda>e c. e)\<rparr>"

definition titlePage :: Page where
  "titlePage = \<lparr>page_objectId = Some ''p0'', pageElements = Some
     [\<lparr>objectId = Some ''t0'', placeholderType = Some ''TITLE''\<rparr>,
      \<lparr>objectId = Some ''s0'', placeholderType = Some ''SUBTITLE''\<rparr>]\<rparr>"

definition contentPage :: "string \<Rightarrow> Page" where
  "contentPage pid = \<lparr>page_objectId = Some pid, pageElements = Some
     [\<lparr>objectId = Some (pid @ ''_t''), placeholderType = Some ''TITLE''\<rparr>,
      \<lparr>objectId = Some (pid @ ''_b''), placeholderType = Some ''BODY''\<rparr>]\<rparr>"

definition closingPage :: Page where
  "closingPage = \<lparr>page_objectId = Some ''p9'', pageElements = Some
     [\<lparr>objectId = Some ''t9'', placeholderType = Some ''TITLE''\<rparr>]\<rparr>"

definition template3 :: "Page list" where
  "template3 = [titlePage, contentPage ''p1'', closingPage]"

text \<open>A template whose page between the content layout and the last page has no identifier.\<close>

definition template4gap :: "Page list" where
  "template4gap = [titlePage, contentPage ''p1'',
     \<lparr>page_objectId = None, pageElements = None\<rparr>, closingPage]"

definition textSlide :: "string \<Rightarrow> string \<Rightarrow> SlideContent" where
  "textSlide t b = \<lparr>slideNumber = None, title = Some (js t), subtitle = None,
     body = Some (js b), bullets = None, slide_notes = None\<rparr>"

definition deckOf :: "SlideContent list \<Rightarrow> CreatePresentationFromContent" where
  "deckOf ss = \<lparr>deck_title = js ''Deck'', slides = ss, templatePresentationId = Some ''tpl''\<rparr>"

text \<open>
  A remote that answers every call: the first read returns \<open>ts\<close>, the second \<open>fs\<close>.
\<close>

definition remoteOf :: "Page list \<Rightarrow> Page list \<Rightarrow> remote" where
  "remoteOf ts fs = \<lparr>copyRes = Inr (Some ''doc''), createRes = Inr (Some ''doc''),
     getRes = Inr (Some ts), batchRes = None, getRes2 = Inr (Some fs), fillRes = None\<rparr>"

text \<open>
  The targets as the specification words them: the title is the first element whose hint
  is \<open>TITLE\<close>; the body is the first element whose hint is \<open>BODY\<close> or \<open>SUBTITLE\<close>, and
  without such an element the element at index 1 of a list of at least two.
\<close>

definition spec_bodyTarget :: "PageElement list \<Rightarrow> string option" where
  "spec_bodyTarget els =
     (case find bodyHint els of
        Some e \<Rightarrow> objectId e
      | None \<Rightarrow> if 2 \<le> length els then objectId (els ! 1) else None)"

definition spec_titleTarget :: "PageElement list \<Rightarrow> string option" where
  "spec_titleTarget els = (case find titleHint els of Some e \<Rightarrow> objectId e | None \<Rightarrow> None)"

text \<open>Sample element lists.\<close>

definition twoTitles :: "PageElement list" where
  "twoTitles = [\<lparr>objectId = Some ''a'', placeholderType = Some ''TITLE''\<rparr>,
                \<lparr>objectId = Some ''b'', placeholderType = Some ''TITLE''\<rparr>]"

definition bodyWithoutId :: "PageElement list" where
  "bodyWithoutId = [\<lparr>objectId = None, placeholderType = Some ''BODY''\<rparr>,
                    \<lparr>objectId = Some ''b'', placeholderType = Some ''SUBTITLE''\<rparr>]"

definition untagged :: "PageElement list" where
  "untagged = [\<lparr>objectId = Some ''a'', placeholderType = None\<rparr>,
               \<lparr>objectId = Some ''b'', placeholderType = None\<rparr>]"

definition titleWithoutId :: "PageElement list" where
  "titleWithoutId = [\<lparr>objectId = None, placeholderType = Some ''TITLE''\<rparr>,
                     \<lparr>objectId = Some [], placeholderType = None\<rparr>]"

text \<open>The element that a text request works on.\<close>

fun textTarget :: "request \<Rightarrow> string option" where
  "textTarget (DeleteText oid) = Some oid"
| "textTarget (InsertText oid _ _) = Some oid"
| "textTarget _ = None"

definition elementIds :: "Page \<Rightarrow> string list" where
  "elementIds p =
     (case pageElements p of
        None \<Rightarrow> []
      | Some els \<Rightarrow> concat (map (\<lambda>e. case objectId e of Some oid \<Rightarrow> [oid] | None \<Rightarrow> []) els))"

text \<open>
  The fill requests in the words of the specification: with a title target, delete all
  text and insert the trimmed slide title; with a body target and a non-empty composed
  body, delete all text and insert the body.
\<close>

definition trimmedTitle :: "SlideContent \<Rightarrow> jstring" where
  "trimmedTitle s = (case title s of Some t \<Rightarrow> trim t | None \<Rightarrow> [])"

definition titleOps :: "PlaceholderInfo option \<Rightarrow> jstring \<Rightarrow> request list" where
  "titleOps ph txt =
     (case ph of
        None \<Rightarrow> []
      | Some t \<Rightarrow> [DeleteText (ph_objectId t), InsertText (ph_objectId t) txt 0])"

definition bodyOps :: "PlaceholderInfo option \<Rightarrow> jstring \<Rightarrow> request list" where
  "bodyOps ph txt =
     (case ph of
        None \<Rightarrow> []
      | Some b \<Rightarrow>
          if txt \<noteq> [] then [DeleteText (ph_objectId b), InsertText (ph_objectId b) txt 0]
          else [])"

definition contentOps :: "SlideContent list \<Rightarrow> Page list \<Rightarrow> nat \<Rightarrow> request list" where
  "contentOps ss fs i =
     titleOps (fst (getTitleAndBodyPlaceholders (pageElementsAt fs (i + 1))))
        (trimmedTitle (slideAt ss i))
     @ bodyOps (snd (getTitleAndBodyPlaceholders (pageElementsAt fs (i + 1))))
        (buildSlideBodyText (slideAt ss i))"

text \<open>
  The requests for slide \<open>i\<close> of the path without template: the slide, its two text boxes
  with the fixed geometry, and the inserts for a non-empty title and a non-empty body.
\<close>

definition blankOps :: "SlideContent list \<Rightarrow> nat \<Rightarrow> request list" where
  "blankOps ss i =
     [CreateSlide (''slide_'' @ decimal (i + 1)) i,
      CreateShape (''title_'' @ decimal (i + 1)) (''slide_'' @ decimal (i + 1)) 640 60 40 40,
      CreateShape (''body_'' @ decimal (i + 1)) (''slide_'' @ decimal (i + 1)) 640 380 40 120]
     @ (if trimmedTitle (ss ! i) \<noteq> []
        then [InsertText (''title_'' @ decimal (i + 1)) (trimmedTitle (ss ! i)) 0] else [])
     @ (if buildSlideBodyText (ss ! i) \<noteq> []
        then [InsertText (''body_'' @ decimal (i + 1)) (buildSlideBodyText (ss ! i)) 0] else [])"


text \<open>A content field is blank when it is absent or empty after trimming.\<close>

definition blankField :: "jstring option \<Rightarrow> bool" where
  "blankField f = (case f of None \<Rightarrow> True | Some x \<Rightarrow> trim x = [])"

definition noBullets :: "jstring list option \<Rightarrow> bool" where
  "noBullets f = (case f of None \<Rightarrow> True | Some bs \<Rightarrow> bs = [])"

text \<open>The requests for the first slide of the path without template.\<close>

definition firstTitleOf :: "jstring \<Rightarrow> SlideContent list \<Rightarrow> jstring" where
  "firstTitleOf t ss =
     (case ss of [] \<Rightarrow> t | s # _ \<Rightarrow> (case title s of Some x \<Rightarrow> trim x | None \<Rightarrow> t))"

definition firstOps :: "jstring \<Rightarrow> SlideContent list \<Rightarrow> PageElement list \<Rightarrow> request list" where
  "firstOps t ss els =
     (case fst (inlinePlaceholders els) of
        None \<Rightarrow> []
      | Some tid \<Rightarrow> if tid \<noteq> [] then [InsertText tid (firstTitleOf t ss) 0] else [])
     @ (case snd (inlinePlaceholders els) of
          None \<Rightarrow> []
        | Some bid \<Rightarrow>
            if bid \<noteq> [] \<and> buildSlideBodyText (slideAt ss 0) \<noteq> []
            then [InsertText bid (buildSlideBodyText (slideAt ss 0)) 0] else [])"

text \<open>
  A page with a picture and a title placeholder at index 1, and the elements of
  \<open>titlePage\<close>.
\<close>

definition aliasPage :: Page where
  "aliasPage = \<lparr>page_objectId = Some ''p1'', pageElements = Some
     [\<lparr>objectId = Some ''img'', placeholderType = None\<rparr>,
      \<lparr>objectId = Some ''t'', placeholderType = Some ''TITLE''\<rparr>]\<rparr>"

definition titleElements :: "PageElement list" where
  "titleElements = [\<lparr>objectId = Some ''t0'', placeholderType = Some ''TITLE''\<rparr>,
      \<lparr>objectId = Some ''s0'', placeholderType = Some ''SUBTITLE''\<rparr>]"

section \<open>The remote presentation under a structural batch\<close>

text \<open>
  The Slides service is not part of the repository. These functions state what it does
  to the sequence of pages when it applies a structural request. \<open>duplicateObject\<close> puts
  a copy of the page right after it; the identifiers of the copy are assigned by the
  service, here by the parameter \<open>c\<close> from the pages at that moment. \<open>deleteObject\<close>
  removes the page. A request for a page that does not exist is rejected, and the batch
  with it (\<open>None\<close>). A structural batch holds no other kind of request; the other
  kinds are outside this model (\<open>None\<close>).
\<close>

fun duplicatePage :: "(Page \<Rightarrow> Page) \<Rightarrow> string \<Rightarrow> Page list \<Rightarrow> Page list option" where
  "duplicatePage c oid [] = None"
| "duplicatePage c oid (p # ps) =
     (if page_objectId p = Some oid then Some (p # c p # ps)
      else map_option (Cons p) (duplicatePage c oid ps))"

fun deletePage :: "string \<Rightarrow> Page list \<Rightarrow> Page list option" where
  "deletePage oid [] = None"
| "deletePage oid (p # ps) =
     (if page_objectId p = Some oid then Some ps
      else map_option (Cons p) (deletePage oid ps))"

fun applyStructural ::
  "(Page list \<Rightarrow> Page \<Rightarrow> Page) \<Rightarrow> request \<Rightarrow> Page list \<Rightarrow> Page list option" where
  "applyStructural c (DuplicateObject oid) ps = duplicatePage (c ps) oid ps"
| "applyStructural c (DeleteObject oid) ps = deletePage oid ps"
| "applyStructural c _ ps = None"

fun applyBatch ::
  "(Page list \<Rightarrow> Page \<Rightarrow> Page) \<Rightarrow> request list \<Rightarrow> Page list \<Rightarrow> Page list option" where
  "applyBatch c [] ps = Some ps"
| "applyBatch c (q # qs) ps =
     (case applyStructural c q ps of None \<Rightarrow> None | Some ps' \<Rightarrow> applyBatch c qs ps')"

text \<open>A service that names a copy after the number of pages before the request.\<close>

definition demoCopy :: "Page list \<Rightarrow> Page \<Rightarrow> Page" where
  "demoCopy ps p =
     \<lparr>page_objectId = Some (''copy'' @ decimal (length ps)),
      pageElements = map_option
        (map (\<lambda>e. e\<lparr>objectId := map_option (\<lambda>x. ''copy'' @ decimal (length ps) @ ''_'' @ x)
                                   (objectId e)\<rparr>))
        (pageElements p)\<rparr>"

definition twoSlideDeck :: CreatePresentationFromContent where
  "twoSlideDeck = deckOf [textSlide ''A'' ''x'', textSlide ''B'' ''y'']"

text \<open>A remote whose second read returns the pages after the structural batch.\<close>

definition appliedRemote :: remote where
  "appliedRemote = (remoteOf template3 [])
     \<lparr>getRes2 := Inr (applyBatch demoCopy
        (structuralRequests ''p1'' (length (slides twoSlideDeck)) template3) template3)\<rparr>"

section \<open>Properties of buildSlideBodyText\<close>

lemma js_simps [simp]: "js [] = []" "js (c # cs) = of_char c # js cs"
  by (simp_all add: js_def)

text \<open>
  C6. The slide with subtitle "s", body "x" and bullets "a", "b": the composed text is
  "s", a blank line, "x", a blank line, and the two bullet lines. Each bullet line starts
  with the four code units U+00E2 U+20AC U+00A2 U+0020 of the source's template literal,
  so the composed text is not the text with the bullet glyph U+2022.
\<close>

theorem buildSlideBodyText_example:
  "buildSlideBodyText \<lparr>slideNumber = None, title = None, subtitle = Some (js ''s''),
      body = Some (js ''x''), bullets = Some [js ''a'', js ''b''], slide_notes = None\<rparr>
     = js ''s'' @ [10, 10] @ js ''x'' @ [10, 10] @ [226, 8364, 162, 32] @ js ''a'' @ [10]
         @ [226, 8364, 162, 32] @ js ''b''
   \<and> buildSlideBodyText \<lparr>slideNumber = None, title = None, subtitle = Some (js ''s''),
      body = Some (js ''x''), bullets = Some [js ''a'', js ''b''], slide_notes = None\<rparr>
     \<noteq> js ''s'' @ [10, 10] @ js ''x'' @ [10, 10] @ bulletGlyphPrefix @ js ''a'' @ [10]
         @ bulletGlyphPrefix @ js ''b''"
  by (simp add: buildSlideBodyText_def pushTrimmed_def pushBullets_def trim_def
      isWhiteSpace_def bulletPrefix_def bulletGlyphPrefix_def)

section \<open>The structural loops in closed form\<close>

lemma fold_snoc_concat: "fold (\<lambda>i rs. rs @ f i) xs acc = acc @ concat (map f xs)"
  by (induction xs arbitrary: acc) auto

lemma duplicateLoop_eq:
  "duplicateLoop lid c rs = rs @ replicate (nat c) (DuplicateObject lid)"
proof -
  have "duplicateLoop lid c rs = rs @ concat (map (\<lambda>i. [DuplicateObject lid]) [0..<nat c])"
    unfolding duplicateLoop_def by (rule fold_snoc_concat)
  also have "concat (map (\<lambda>i. [DuplicateObject lid]) [0..<nat c])
               = replicate (nat c) (DuplicateObject lid)"
    by (simp add: map_replicate_const)
  finally show ?thesis .
qed

lemma concat_deleteOf: "concat (map deleteOf ps) = map DeleteObject (presentIds ps)"
  by (induction ps) (auto simp: deleteOf_def split: option.splits)

lemma nth_upt_slice:
  assumes "b \<le> length xs"
  shows "map (\<lambda>i. xs ! i) [a..<b] = take (b - a) (drop a xs)"
proof (rule nth_equalityI)
  show "length (map (\<lambda>i. xs ! i) [a..<b]) = length (take (b - a) (drop a xs))"
    using assms by simp
next
  fix i
  assume "i < length (map (\<lambda>i. xs ! i) [a..<b])"
  then show "map (\<lambda>i. xs ! i) [a..<b] ! i = take (b - a) (drop a xs) ! i"
    using assms by simp
qed

lemma deleteLoop_eq:
  "deleteLoop ts rs = rs @ map DeleteObject (presentIds (butlast (drop 2 ts)))"
proof -
  have "deleteLoop ts rs
          = rs @ concat (map (\<lambda>i. deleteOf (ts ! i)) [2..<nat (int (length ts) - 1)])"
    unfolding deleteLoop_def deleteOf_def
    by (subst fold_snoc_concat[symmetric])
       (rule arg_cong[where f="\<lambda>f. fold f _ _"], auto split: option.splits)
  also have "map (\<lambda>i. deleteOf (ts ! i)) [2..<nat (int (length ts) - 1)]
               = map deleteOf (map (\<lambda>i. ts ! i) [2..<length ts - 1])"
    by (simp add: nat_diff_distrib')
  also have "map (\<lambda>i. ts ! i) [2..<length ts - 1] = butlast (drop 2 ts)"
    by (simp add: nth_upt_slice butlast_conv_take drop_take numeral_3_eq_3)
  finally show ?thesis by (simp add: concat_deleteOf)
qed

lemma structuralRequests_eq:
  "structuralRequests lid N ts
     = replicate (N - 1) (DuplicateObject lid)
         @ map DeleteObject (presentIds (butlast (drop 2 ts)))"
  by (simp add: structuralRequests_def duplicateLoop_eq deleteLoop_eq nat_diff_distrib')

section \<open>The placeholder scan in closed form\<close>

lemma scanElement_noId: "\<not> hasId e \<Longrightarrow> scanElement e acc = acc"
  by (auto simp: scanElement_def hasId_def split: option.splits)

lemma scanElement_fst:
  "fst (scanElement e acc) =
     (if hasId e \<and> titleHint e then Some \<lparr>ph_objectId = idOf e, ph_type = ''TITLE''\<rparr>
      else fst acc)"
  by (auto simp: scanElement_def hasId_def titleHint_def idOf_def Let_def split: option.splits)

lemma scanElement_snd:
  "snd (scanElement e acc) =
     (case snd acc of
        Some b \<Rightarrow> Some b
      | None \<Rightarrow>
          if hasId e \<and> bodyHint e then Some \<lparr>ph_objectId = idOf e, ph_type = hintOf e\<rparr>
          else None)"
  by (auto simp: scanElement_def hasId_def bodyHint_def idOf_def hintOf_def Let_def
      split: option.splits)

lemma find_snoc:
  "find P (xs @ [x]) =
     (case find P xs of Some y \<Rightarrow> Some y | None \<Rightarrow> if P x then Some x else None)"
  by (induction xs) auto

lemma scan_fst:
  "fst (fold scanElement els acc) =
     (case find (\<lambda>e. hasId e \<and> titleHint e) (rev els) of
        Some e \<Rightarrow> Some \<lparr>ph_objectId = idOf e, ph_type = ''TITLE''\<rparr>
      | None \<Rightarrow> fst acc)"
proof (induction els arbitrary: acc)
  case Nil
  show ?case by simp
next
  case (Cons e es)
  show ?case
    by (simp add: Cons.IH find_snoc scanElement_fst split: option.splits)
qed

lemma scan_snd:
  "snd (fold scanElement els acc) =
     (case snd acc of
        Some b \<Rightarrow> Some b
      | None \<Rightarrow>
          (case find (\<lambda>e. hasId e \<and> bodyHint e) els of
             Some e \<Rightarrow> Some \<lparr>ph_objectId = idOf e, ph_type = hintOf e\<rparr>
           | None \<Rightarrow> None))"
proof (induction els arbitrary: acc)
  case Nil
  show ?case by (simp split: option.splits)
next
  case (Cons e es)
  show ?case
    by (simp add: Cons.IH scanElement_snd split: option.splits)
qed

lemma scan_filter: "fold scanElement (filter hasId els) acc = fold scanElement els acc"
  by (induction els arbitrary: acc) (auto simp: scanElement_noId)

section \<open>The paths through createFromTemplate\<close>

lemma restructured_short:
  assumes "getRes2 r = Inr s2" "length (slidesOf s2) < length (slides args) + 2"
  shows "restructured r args pid calls =
           (Inl RestructuringNotEnoughSlides, calls @ [PresentationsGet pid])"
  using assms by (simp add: restructured_def Let_def)

lemma restructured_rejected:
  assumes "getRes2 r = Inl e"
  shows "restructured r args pid calls = (Inl e, calls @ [PresentationsGet pid])"
  using assms by (simp add: restructured_def Let_def)

lemma restructured_Inr:
  assumes "fst (restructured r args pid calls) = Inr out"
  shows "\<exists>s2. getRes2 r = Inr s2 \<and> length (slides args) + 2 \<le> length (slidesOf s2)"
proof (cases "getRes2 r")
  case (Inl e)
  with assms show ?thesis by (simp add: restructured_rejected)
next
  case (Inr s2)
  show ?thesis
  proof (cases "length (slidesOf s2) < length (slides args) + 2")
    case True
    with Inr assms show ?thesis by (simp add: restructured_short)
  next
    case False
    with Inr show ?thesis by simp
  qed
qed

lemma restructured_ok:
  assumes "getRes2 r = Inr s2" "length (slides args) + 2 \<le> length (slidesOf s2)"
    "fillRes r = None"
  shows "restructured r args pid calls =
           (Inr \<lparr>presentationId = pid, editUrl = mkEditUrl pid, out_title = deck_title args\<rparr>,
            calls @ [PresentationsGet pid]
              @ batchCall pid (fillRequestsOf (deck_title args) (slides args) (slidesOf s2)))"
  using assms by (simp add: restructured_def Let_def batchCall_def)

lemma createFromTemplate_noCopyId:
  assumes "copyRes r = Inr None \<or> copyRes r = Inr (Some [])"
  shows "createFromTemplate ev r args =
           (Inl DriveCopyNoFileId, [FilesCopy (templateIdOf ev args) (deck_title args)])"
  using assms by (auto simp: createFromTemplate_def Let_def templateIdOf_def)

lemma createFromTemplate_copyRejected:
  assumes "copyRes r = Inl e"
  shows "createFromTemplate ev r args =
           (Inl e, [FilesCopy (templateIdOf ev args) (deck_title args)])"
  using assms by (simp add: createFromTemplate_def Let_def templateIdOf_def)

lemma createFromTemplate_getRejected:
  assumes "copyRes r = Inr (Some pid)" "pid \<noteq> []" "getRes r = Inl e"
  shows "createFromTemplate ev r args =
           (Inl e, [FilesCopy (templateIdOf ev args) (deck_title args), PresentationsGet pid])"
  using assms by (simp add: createFromTemplate_def Let_def templateIdOf_def)

lemma createFromTemplate_tooFew:
  assumes "copyRes r = Inr (Some pid)" "pid \<noteq> []" "getRes r = Inr s1"
    "length (slidesOf s1) < 3"
  shows "createFromTemplate ev r args =
           (Inl TemplateTooFewSlides,
            [FilesCopy (templateIdOf ev args) (deck_title args), PresentationsGet pid])"
  using assms by (simp add: createFromTemplate_def Let_def templateIdOf_def)

lemma createFromTemplate_noLayoutId:
  assumes "copyRes r = Inr (Some pid)" "pid \<noteq> []" "getRes r = Inr s1"
    "3 \<le> length (slidesOf s1)" "\<not> truthy (page_objectId (slidesOf s1 ! 1))"
  shows "createFromTemplate ev r args =
           (Inl ContentLayoutMissingObjectId,
            [FilesCopy (templateIdOf ev args) (deck_title args), PresentationsGet pid])"
  using assms
  by (cases "page_objectId (slidesOf s1 ! 1)")
     (simp_all add: createFromTemplate_def Let_def templateIdOf_def
       TEMPLATE_CONTENT_LAYOUT_INDEX_def)

lemma createFromTemplate_batchRejected:
  assumes "copyRes r = Inr (Some pid)" "pid \<noteq> []" "getRes r = Inr s1"
    "3 \<le> length (slidesOf s1)" "page_objectId (slidesOf s1 ! 1) = Some lid" "lid \<noteq> []"
    "structuralRequests lid (length (slides args)) (slidesOf s1) \<noteq> []" "batchRes r = Some e"
  shows "createFromTemplate ev r args =
           (Inl e,
             [FilesCopy (templateIdOf ev args) (deck_title args), PresentationsGet pid]
                @ batchCall pid (structuralRequests lid (length (slides args)) (slidesOf s1)))"
  using assms
  by (simp add: createFromTemplate_def Let_def batchCall_def templateIdOf_def
      TEMPLATE_CONTENT_LAYOUT_INDEX_def)

lemma createFromTemplate_planned:
  assumes "copyRes r = Inr (Some pid)" "pid \<noteq> []" "getRes r = Inr s1"
    "3 \<le> length (slidesOf s1)" "page_objectId (slidesOf s1 ! 1) = Some lid" "lid \<noteq> []"
    "batchRes r = None \<or> structuralRequests lid (length (slides args)) (slidesOf s1) = []"
  shows "createFromTemplate ev r args =
           restructured r args pid
             ([FilesCopy (templateIdOf ev args) (deck_title args), PresentationsGet pid]
                @ batchCall pid (structuralRequests lid (length (slides args)) (slidesOf s1)))"
proof (cases "structuralRequests lid (length (slides args)) (slidesOf s1) = []")
  case True
  with assms(1-6) show ?thesis
    by (simp add: createFromTemplate_def Let_def batchCall_def templateIdOf_def
      TEMPLATE_CONTENT_LAYOUT_INDEX_def)
next
  case False
  with assms have "batchRes r = None" by simp
  with False assms(1-6) show ?thesis
    by (simp add: createFromTemplate_def Let_def batchCall_def templateIdOf_def
      TEMPLATE_CONTENT_LAYOUT_INDEX_def)
qed


lemma createFromTemplate_Inr_restructured:
  assumes ok: "fst (createFromTemplate ev r args) = Inr out"
  shows "\<exists>pid calls. createFromTemplate ev r args = restructured r args pid calls"
proof (cases "copyRes r")
  case (Inl e)
  with ok show ?thesis by (simp add: createFromTemplate_copyRejected)
next
  case copied: (Inr c)
  show ?thesis
  proof (cases "truthy c")
    case False
    then have "copyRes r = Inr None \<or> copyRes r = Inr (Some [])"
      using copied by (cases c) auto
    with ok show ?thesis by (simp add: createFromTemplate_noCopyId)
  next
    case True
    then obtain pid where pid: "copyRes r = Inr (Some pid)" "pid \<noteq> []"
      using copied by (cases c) auto
    show ?thesis
    proof (cases "getRes r")
      case (Inl e)
      with ok pid show ?thesis by (simp add: createFromTemplate_getRejected)
    next
      case got: (Inr s1)
      show ?thesis
      proof (cases "length (slidesOf s1) < 3")
        case True
        with ok pid got show ?thesis by (simp add: createFromTemplate_tooFew)
      next
        case enough: False
        show ?thesis
        proof (cases "truthy (page_objectId (slidesOf s1 ! 1))")
          case False
          with ok pid got enough show ?thesis by (simp add: createFromTemplate_noLayoutId)
        next
          case True
          then obtain lid where lid: "page_objectId (slidesOf s1 ! 1) = Some lid" "lid \<noteq> []"
            by (cases "page_objectId (slidesOf s1 ! 1)") auto
          show ?thesis
          proof (cases "batchRes r = None
              \<or> structuralRequests lid (length (slides args)) (slidesOf s1) = []")
            case True
            from createFromTemplate_planned[OF pid got _ lid True] enough
            show ?thesis by auto
          next
            case False
            then obtain e where "batchRes r = Some e"
              "structuralRequests lid (length (slides args)) (slidesOf s1) \<noteq> []" by auto
            with ok pid got enough lid show ?thesis
              by (simp add: createFromTemplate_batchRejected)
          qed
        qed
      qed
    qed
  qed
qed

lemma createFromTemplate_Inr:
  assumes "fst (createFromTemplate ev r args) = Inr out"
  shows "\<exists>s2. getRes2 r = Inr s2 \<and> length (slides args) + 2 \<le> length (slidesOf s2)"
  using assms createFromTemplate_Inr_restructured[OF assms] restructured_Inr by metis

lemma createFromTemplate_run:
  assumes "copyRes r = Inr (Some pid)" "pid \<noteq> []" "getRes r = Inr s1"
    "3 \<le> length (slidesOf s1)" "page_objectId (slidesOf s1 ! 1) = Some lid" "lid \<noteq> []"
    "batchRes r = None \<or> structuralRequests lid (length (slides args)) (slidesOf s1) = []"
    "getRes2 r = Inr s2" "length (slides args) + 2 \<le> length (slidesOf s2)" "fillRes r = None"
  shows "createFromTemplate ev r args =
           (Inr \<lparr>presentationId = pid, editUrl = mkEditUrl pid, out_title = deck_title args\<rparr>,
            [FilesCopy (templateIdOf ev args) (deck_title args), PresentationsGet pid]
              @ batchCall pid (structuralRequests lid (length (slides args)) (slidesOf s1))
              @ [PresentationsGet pid]
              @ batchCall pid (fillRequestsOf (deck_title args) (slides args) (slidesOf s2)))"
  using createFromTemplate_planned[OF assms(1-7), of ev] restructured_ok[OF assms(8-10)]
  by simp

section \<open>Provisioning (C9)\<close>

text \<open>
  C9. In template mode the tool fails with a provisioning error when the Drive copy
  returns no file identifier (absent or empty), and when the copied template has fewer
  than three slides. In both cases the calls issued are listed in full: the copy alone,
  or the copy and the first read. No \<open>batchUpdate\<close> has been issued.
\<close>

theorem provisioning_fails:
  "(copyRes r = Inr None \<or> copyRes r = Inr (Some []) \<longrightarrow>
      createPresentationFromContent ev r args True
        = (Inl DriveCopyNoFileId, [FilesCopy (templateIdOf ev args) (deck_title args)])
      \<and> spec_ProvisionError DriveCopyNoFileId)
   \<and> (\<forall>pid s1. copyRes r = Inr (Some pid) \<and> pid \<noteq> [] \<and> getRes r = Inr s1
         \<and> length (slidesOf s1) < 3 \<longrightarrow>
      createPresentationFromContent ev r args True
        = (Inl TemplateTooFewSlides,
           [FilesCopy (templateIdOf ev args) (deck_title args), PresentationsGet pid])
      \<and> spec_ProvisionError TemplateTooFewSlides)"
  by (simp add: createPresentationFromContent_def createFromTemplate_noCopyId
      createFromTemplate_tooFew spec_ProvisionError_def)

text \<open>A template of two pages, and a copy without identifier.\<close>

theorem provisioning_fails_witness:
  "createPresentationFromContent demoEnv (remoteOf [titlePage, closingPage] [])
       (deckOf [textSlide ''A'' ''x'']) True
     = (Inl TemplateTooFewSlides, [FilesCopy ''tpl'' (js ''Deck''), PresentationsGet ''doc''])
   \<and> createPresentationFromContent demoEnv
       ((remoteOf [titlePage, closingPage] []) \<lparr>copyRes := Inr None\<rparr>)
       (deckOf [textSlide ''A'' ''x'']) True
     = (Inl DriveCopyNoFileId, [FilesCopy ''tpl'' (js ''Deck'')])"
  using provisioning_fails[of "remoteOf [titlePage, closingPage] []" demoEnv
      "deckOf [textSlide ''A'' ''x'']"]
    provisioning_fails[of "(remoteOf [titlePage, closingPage] []) \<lparr>copyRes := Inr None\<rparr>" demoEnv
      "deckOf [textSlide ''A'' ''x'']"]
  by (simp add: remoteOf_def deckOf_def slidesOf_def templateIdOf_def)

section \<open>The structural batch (C2)\<close>

text \<open>
  With one slide and a template of four pages whose page at index 2 has no identifier,
  the structural requests are empty: the page between the content layout and the last
  page gets no delete request.
\<close>

theorem structural_batch_counterexample:
  "length template4gap = 4
   \<and> structuralRequests ''p1'' 1 template4gap = []
   \<and> length (filter isDeleteObject (structuralRequests ''p1'' 1 template4gap))
       \<noteq> length [2..<length template4gap - 1]"
  by (simp add: structuralRequests_eq template4gap_def titlePage_def closingPage_def
      contentPage_def)

text \<open>
  C2 (amended). When the copy returned the document \<open>pid\<close>, the template has at least
  three pages and its page at index 1 has the identifier \<open>lid\<close>, the structural requests
  for \<open>N\<close> slides are \<open>N - 1\<close> duplications of \<open>lid\<close> followed by one deletion for each
  page at the indices 2 to \<open>P - 2\<close> that has an identifier, in ascending order. They are
  sent as one \<open>batchUpdate\<close> right after the first read, unless there are none. When
  every page at the indices 2 to \<open>P - 2\<close> has an identifier, there is one deletion for each
  of these pages.
\<close>

theorem structural_batch:
  assumes "copyRes r = Inr (Some pid)" "pid \<noteq> []" "getRes r = Inr s1"
    "3 \<le> length (slidesOf s1)" "page_objectId (slidesOf s1 ! 1) = Some lid" "lid \<noteq> []"
  shows "structuralRequests lid (length (slides args)) (slidesOf s1)
           = replicate (length (slides args) - 1) (DuplicateObject lid)
               @ map DeleteObject (presentIds (butlast (drop 2 (slidesOf s1))))
       \<and> (\<exists>rest. snd (createFromTemplate ev r args)
             = [FilesCopy (templateIdOf ev args) (deck_title args), PresentationsGet pid]
                 @ batchCall pid (structuralRequests lid (length (slides args)) (slidesOf s1))
                 @ rest)
       \<and> ((\<forall>p \<in> set (butlast (drop 2 (slidesOf s1))). truthy (page_objectId p)) \<longrightarrow>
             map Some (presentIds (butlast (drop 2 (slidesOf s1))))
               = map page_objectId (butlast (drop 2 (slidesOf s1))))"
proof -
  let ?reqs = "structuralRequests lid (length (slides args)) (slidesOf s1)"
  let ?pre = "[FilesCopy (templateIdOf ev args) (deck_title args), PresentationsGet pid]"
  have calls: "\<exists>rest. snd (createFromTemplate ev r args) = ?pre @ batchCall pid ?reqs @ rest"
  proof (cases "batchRes r = None \<or> ?reqs = []")
    case True
    have run: "createFromTemplate ev r args = restructured r args pid (?pre @ batchCall pid ?reqs)"
      by (rule createFromTemplate_planned[OF assms True])
    have "\<exists>rest. snd (restructured r args pid cs) = cs @ rest" for cs
      by (cases "getRes2 r"; cases "fillRes r")
         (simp_all add: restructured_def Let_def)
    with run show ?thesis by (metis append.assoc)
  next
    case False
    then obtain e where "batchRes r = Some e" "?reqs \<noteq> []" by auto
    with assms show ?thesis by (simp add: createFromTemplate_batchRejected)
  qed
  have ids: "(\<forall>p \<in> set ps. truthy (page_objectId p)) \<longrightarrow>
               map Some (presentIds ps) = map page_objectId ps" for ps
    by (induction ps) (auto split: option.splits)
  from calls ids show ?thesis by (simp add: structuralRequests_eq)
qed

text \<open>Three slides and a template of three pages: two duplications and no deletion.\<close>

theorem structural_batch_witness:
  "structuralRequests ''p1''
       (length (slides (deckOf [textSlide ''A'' ''x'', textSlide ''B'' ''y'', textSlide ''C'' ''z''])))
       template3 = [DuplicateObject ''p1'', DuplicateObject ''p1'']
   \<and> (\<exists>rest. snd (createFromTemplate demoEnv (remoteOf template3 [])
          (deckOf [textSlide ''A'' ''x'', textSlide ''B'' ''y'', textSlide ''C'' ''z'']))
        = [FilesCopy ''tpl'' (js ''Deck''), PresentationsGet ''doc'',
           BatchUpdate ''doc'' [DuplicateObject ''p1'', DuplicateObject ''p1'']] @ rest)"
  using structural_batch[of "remoteOf template3 []" "''doc''" "Some template3" "''p1''"
      "deckOf [textSlide ''A'' ''x'', textSlide ''B'' ''y'', textSlide ''C'' ''z'']" demoEnv]
  by (simp add: remoteOf_def template3_def deckOf_def slidesOf_def contentPage_def
      batchCall_def templateIdOf_def titlePage_def closingPage_def structuralRequests_eq)

section \<open>Placeholder resolution (C4, C5, C10)\<close>

lemma getTitleAndBodyPlaceholders_fst:
  "fst (getTitleAndBodyPlaceholders (Some els)) = fst (fold scanElement els (None, None))"
  by (simp add: getTitleAndBodyPlaceholders_def Let_def)

lemma getTitleAndBodyPlaceholders_snd:
  "snd (getTitleAndBodyPlaceholders (Some els)) =
     (case snd (fold scanElement els (None, None)) of
        Some b \<Rightarrow> Some b
      | None \<Rightarrow>
          if 2 \<le> length els \<and> hasId (els ! 1)
          then Some \<lparr>ph_objectId = idOf (els ! 1), ph_type = ''BODY''\<rparr> else None)"
  by (auto simp: getTitleAndBodyPlaceholders_def Let_def hasId_def idOf_def split: option.splits)

lemma scanInline_step_fst:
  "fst (scanInline e acc) = (if titleHint e then objectId e else fst acc)"
  by (simp add: scanInline_def titleHint_def Let_def)

lemma scanInline_fst:
  "fst (fold scanInline els acc) =
     (case find titleHint (rev els) of Some e \<Rightarrow> objectId e | None \<Rightarrow> fst acc)"
proof (induction els arbitrary: acc)
  case Nil
  show ?case by simp
next
  case (Cons e es)
  show ?case
    by (simp add: Cons.IH find_snoc scanInline_step_fst split: option.splits)
qed

lemma inlinePlaceholders_fst:
  "fst (inlinePlaceholders els) = fst (fold scanInline els (None, None))"
  by (simp add: inlinePlaceholders_def Let_def)

text \<open>
  Two elements with the hint \<open>TITLE\<close> and identifiers "a" and "b": the first element
  with the hint is "a", and both scans assign the title to "b".
\<close>

theorem title_first_counterexample:
  "spec_titleTarget twoTitles = Some ''a''
   \<and> fst (getTitleAndBodyPlaceholders (Some twoTitles))
       = Some \<lparr>ph_objectId = ''b'', ph_type = ''TITLE''\<rparr>
   \<and> fst (inlinePlaceholders twoTitles) = Some ''b''"
  by (simp add: twoTitles_def spec_titleTarget_def titleHint_def getTitleAndBodyPlaceholders_def
      scanElement_def inlinePlaceholders_def scanInline_def Let_def)

text \<open>
  C4 (amended). For every element list, the title of \<open>getTitleAndBodyPlaceholders\<close> is
  the last element in scan order that has an identifier and the hint \<open>TITLE\<close>: a later
  such element overwrites an earlier one. The inline scan of the path without template
  takes the identifier (possibly absent) of the last element with the hint \<open>TITLE\<close>.
\<close>

theorem title_last_wins:
  "fst (getTitleAndBodyPlaceholders (Some els)) =
     (case find (\<lambda>e. hasId e \<and> titleHint e) (rev els) of
        Some e \<Rightarrow> Some \<lparr>ph_objectId = idOf e, ph_type = ''TITLE''\<rparr>
      | None \<Rightarrow> None)
   \<and> fst (inlinePlaceholders els) =
       (case find titleHint (rev els) of Some e \<Rightarrow> objectId e | None \<Rightarrow> None)"
  by (simp add: getTitleAndBodyPlaceholders_fst scan_fst inlinePlaceholders_fst
      scanInline_fst split: option.splits)

text \<open>
  The two titles again.
\<close>

theorem title_last_wins_witness:
  "fst (getTitleAndBodyPlaceholders (Some twoTitles))
     = Some \<lparr>ph_objectId = ''b'', ph_type = ''TITLE''\<rparr>"
  using title_last_wins[of twoTitles]
  by (simp add: twoTitles_def hasId_def titleHint_def idOf_def)

text \<open>
  The first element with a body hint has no identifier: the body is the second element,
  not the first one with the hint.
\<close>

theorem body_first_counterexample:
  "find bodyHint bodyWithoutId = Some \<lparr>objectId = None, placeholderType = Some ''BODY''\<rparr>
   \<and> spec_bodyTarget bodyWithoutId = None
   \<and> snd (getTitleAndBodyPlaceholders (Some bodyWithoutId))
       = Some \<lparr>ph_objectId = ''b'', ph_type = ''SUBTITLE''\<rparr>"
  by (simp add: bodyWithoutId_def spec_bodyTarget_def bodyHint_def getTitleAndBodyPlaceholders_def
      scanElement_def Let_def)

lemma find_hasId:
  "\<forall>e \<in> set els. hasId e \<Longrightarrow> find (\<lambda>e. hasId e \<and> P e) els = find P els"
  by (induction els) auto

lemma hasId_objectId: "hasId e \<Longrightarrow> objectId e = Some (idOf e)"
  by (cases "objectId e") (auto simp: hasId_def idOf_def)

text \<open>
  C5 (amended). For every element list, the body of \<open>getTitleAndBodyPlaceholders\<close> is
  the first element in scan order that has an identifier and the hint \<open>BODY\<close> or
  \<open>SUBTITLE\<close>; without such an element, the element at index 1 is the body when the
  list has at least two elements and that element has an identifier, and there is no body
  otherwise. A list of at least two elements without title or body hints, whose element
  at index 1 has an identifier, yields that element as body and no title. When every
  element has an identifier, the body is the one the specification names.
\<close>

theorem body_resolution:
  "snd (getTitleAndBodyPlaceholders (Some els)) =
     (case find (\<lambda>e. hasId e \<and> bodyHint e) els of
        Some e \<Rightarrow> Some \<lparr>ph_objectId = idOf e, ph_type = hintOf e\<rparr>
      | None \<Rightarrow>
          if 2 \<le> length els \<and> hasId (els ! 1)
          then Some \<lparr>ph_objectId = idOf (els ! 1), ph_type = ''BODY''\<rparr> else None)
   \<and> ((\<forall>e \<in> set els. \<not> titleHint e \<and> \<not> bodyHint e) \<and> 2 \<le> length els \<and> hasId (els ! 1) \<longrightarrow>
         getTitleAndBodyPlaceholders (Some els)
           = (None, Some \<lparr>ph_objectId = idOf (els ! 1), ph_type = ''BODY''\<rparr>))
   \<and> ((\<forall>e \<in> set els. hasId e) \<longrightarrow>
         map_option ph_objectId (snd (getTitleAndBodyPlaceholders (Some els)))
           = spec_bodyTarget els)"
proof -
  have body: "snd (getTitleAndBodyPlaceholders (Some els)) =
     (case find (\<lambda>e. hasId e \<and> bodyHint e) els of
        Some e \<Rightarrow> Some \<lparr>ph_objectId = idOf e, ph_type = hintOf e\<rparr>
      | None \<Rightarrow>
          if 2 \<le> length els \<and> hasId (els ! 1)
          then Some \<lparr>ph_objectId = idOf (els ! 1), ph_type = ''BODY''\<rparr> else None)"
    by (simp add: getTitleAndBodyPlaceholders_snd scan_snd split: option.splits)
  have nohint: "getTitleAndBodyPlaceholders (Some els)
           = (None, Some \<lparr>ph_objectId = idOf (els ! 1), ph_type = ''BODY''\<rparr>)"
    if none: "\<forall>e \<in> set els. \<not> titleHint e \<and> \<not> bodyHint e" and two: "2 \<le> length els"
      and id1: "hasId (els ! 1)"
  proof -
    have t: "find (\<lambda>e. hasId e \<and> titleHint e) (rev els) = None"
      using none by (simp add: find_None_iff)
    have b: "find (\<lambda>e. hasId e \<and> bodyHint e) els = None"
      using none by (simp add: find_None_iff)
    have "fst (getTitleAndBodyPlaceholders (Some els)) = None"
      by (simp add: getTitleAndBodyPlaceholders_fst scan_fst t)
    moreover have "snd (getTitleAndBodyPlaceholders (Some els))
        = Some \<lparr>ph_objectId = idOf (els ! 1), ph_type = ''BODY''\<rparr>"
      using two id1 by (simp add: body b)
    ultimately show ?thesis by (simp add: prod_eq_iff)
  qed
  have spec: "map_option ph_objectId (snd (getTitleAndBodyPlaceholders (Some els)))
           = spec_bodyTarget els" if ids: "\<forall>e \<in> set els. hasId e"
  proof (cases "find bodyHint els")
    case None
    then have "find (\<lambda>e. hasId e \<and> bodyHint e) els = None"
      by (simp add: find_None_iff)
    then show ?thesis
      using None ids by (auto simp: body spec_bodyTarget_def hasId_objectId)
  next
    case (Some e)
    then have "e \<in> set els" by (auto simp: find_Some_iff)
    with ids have "hasId e" by blast
    then show ?thesis
      using Some ids by (simp add: body spec_bodyTarget_def find_hasId hasId_objectId)
  qed
  from body nohint spec show ?thesis by blast
qed

text \<open>
  Two elements without hints.
\<close>

theorem body_resolution_witness:
  "getTitleAndBodyPlaceholders (Some untagged)
     = (None, Some \<lparr>ph_objectId = ''b'', ph_type = ''BODY''\<rparr>)
   \<and> spec_bodyTarget untagged = Some ''b''"
  using body_resolution[of untagged]
  by (simp add: untagged_def hasId_def titleHint_def bodyHint_def idOf_def spec_bodyTarget_def)

text \<open>
  C10. An element without identifier (absent or empty) leaves the scan state as it is, so
  the scan of a list equals the scan of its elements that have an identifier. When every
  element with the hint \<open>TITLE\<close> lacks an identifier, no title is assigned. When the scan
  found no body, the element at index 1 becomes the body only if the list has at least
  two elements and that element has an identifier; otherwise the body stays unassigned,
  and the function returns in every case.
\<close>

theorem missing_ids_skipped:
  "(\<forall>e acc. \<not> hasId e \<longrightarrow> scanElement e acc = acc)
   \<and> getTitleAndBodyPlaceholders (Some els) =
      (let acc = fold scanElement (filter hasId els) (None, None)
       in if snd acc = None \<and> 2 \<le> length els \<and> hasId (els ! 1)
          then (fst acc, Some \<lparr>ph_objectId = idOf (els ! 1), ph_type = ''BODY''\<rparr>)
          else acc)
   \<and> ((\<forall>e \<in> set els. titleHint e \<longrightarrow> \<not> hasId e) \<longrightarrow>
         fst (getTitleAndBodyPlaceholders (Some els)) = None)
   \<and> (snd (fold scanElement els (None, None)) = None \<longrightarrow>
         snd (getTitleAndBodyPlaceholders (Some els)) =
           (if 2 \<le> length els \<and> hasId (els ! 1)
            then Some \<lparr>ph_objectId = idOf (els ! 1), ph_type = ''BODY''\<rparr> else None))"
proof -
  have skip: "\<forall>e acc. \<not> hasId e \<longrightarrow> scanElement e acc = acc"
    by (simp add: scanElement_noId)
  have whole: "getTitleAndBodyPlaceholders (Some els) =
      (let acc = fold scanElement (filter hasId els) (None, None)
       in if snd acc = None \<and> 2 \<le> length els \<and> hasId (els ! 1)
          then (fst acc, Some \<lparr>ph_objectId = idOf (els ! 1), ph_type = ''BODY''\<rparr>)
          else acc)"
    by (auto simp: scan_filter getTitleAndBodyPlaceholders_def Let_def hasId_def idOf_def
        split: option.splits)
  have title: "(\<forall>e \<in> set els. titleHint e \<longrightarrow> \<not> hasId e) \<longrightarrow>
         fst (getTitleAndBodyPlaceholders (Some els)) = None"
  proof
    assume "\<forall>e \<in> set els. titleHint e \<longrightarrow> \<not> hasId e"
    then have "find (\<lambda>e. hasId e \<and> titleHint e) (rev els) = None"
      by (auto simp: find_None_iff)
    then show "fst (getTitleAndBodyPlaceholders (Some els)) = None"
      by (simp add: getTitleAndBodyPlaceholders_fst scan_fst)
  qed
  have fallback: "snd (fold scanElement els (None, None)) = None \<longrightarrow>
         snd (getTitleAndBodyPlaceholders (Some els)) =
           (if 2 \<le> length els \<and> hasId (els ! 1)
            then Some \<lparr>ph_objectId = idOf (els ! 1), ph_type = ''BODY''\<rparr> else None)"
    by (simp add: getTitleAndBodyPlaceholders_snd)
  from skip whole title fallback show ?thesis by blast
qed

text \<open>
  A \<open>TITLE\<close> element without identifier, followed by an element with an empty identifier.
\<close>

theorem missing_ids_skipped_witness:
  "getTitleAndBodyPlaceholders (Some titleWithoutId) = (None, None)"
  using missing_ids_skipped[of titleWithoutId]
  by (simp add: titleWithoutId_def hasId_def titleHint_def prod_eq_iff scanElement_def)

section \<open>The fill requests in closed form\<close>

text \<open>
  The fill batch of a run in template mode is \<open>fillRequestsOf\<close> on the pages of the
  second read (\<open>createFromTemplate_run\<close>); the batch of a run without template is
  \<open>blankRequests\<close> on the elements of the first page.
\<close>

lemma fillTitleSlide_eq:
  "fillTitleSlide t fs rs
     = rs @ titleOps (fst (getTitleAndBodyPlaceholders (pageElementsAt fs 0))) t"
  by (simp add: fillTitleSlide_def titleOps_def split: option.splits)

lemma fillContentSlide_eq: "fillContentSlide ss fs i rs = rs @ contentOps ss fs i"
  by (simp add: fillContentSlide_def contentOps_def titleOps_def bodyOps_def trimmedTitle_def
      Let_def split: option.splits)

lemma fillRequestsOf_eq:
  "fillRequestsOf t ss fs
     = titleOps (fst (getTitleAndBodyPlaceholders (pageElementsAt fs 0))) t
         @ concat (map (contentOps ss fs) [0..<length ss])"
proof -
  have "fillContentSlide ss fs = (\<lambda>i rs. rs @ contentOps ss fs i)"
    by (intro ext) (rule fillContentSlide_eq)
  then show ?thesis
    by (simp add: fillRequestsOf_def fold_snoc_concat fillTitleSlide_eq)
qed

lemma blankSlide_eq: "blankSlide ss i rs = rs @ blankOps ss i"
  by (simp add: blankSlide_def blankOps_def trimmedTitle_def Let_def CONTENT_WIDTH_PT_def
      PAGE_WIDTH_PT_def MARGIN_PT_def TITLE_HEIGHT_PT_def PAGE_HEIGHT_PT_def BODY_TOP_PT_def)

lemma blankRequests_eq:
  "blankRequests t ss els
     = firstSlideRequests t ss els @ concat (map (blankOps ss) [1..<length ss])"
proof -
  have "blankSlide ss = (\<lambda>i rs. rs @ blankOps ss i)"
    by (intro ext) (rule blankSlide_eq)
  then show ?thesis
    by (simp add: blankRequests_def fold_snoc_concat)
qed

lemma find_Some_mem: "find P xs = Some x \<Longrightarrow> x \<in> set xs \<and> P x"
  by (induction xs) (auto split: if_splits)

lemma title_in_elements:
  assumes "fst (getTitleAndBodyPlaceholders (Some els)) = Some t"
  shows "\<exists>e \<in> set els. objectId e = Some (ph_objectId t)"
proof -
  from assms obtain e where e: "find (\<lambda>e. hasId e \<and> titleHint e) (rev els) = Some e"
    and t: "t = \<lparr>ph_objectId = idOf e, ph_type = ''TITLE''\<rparr>"
    by (auto simp: getTitleAndBodyPlaceholders_fst scan_fst split: option.splits)
  from find_Some_mem[OF e] have "e \<in> set els" "hasId e" by simp_all
  with t hasId_objectId[of e] show ?thesis by auto
qed

lemma body_in_elements:
  assumes "snd (getTitleAndBodyPlaceholders (Some els)) = Some b"
  shows "\<exists>e \<in> set els. objectId e = Some (ph_objectId b)"
proof (cases "find (\<lambda>e. hasId e \<and> bodyHint e) els")
  case (Some e)
  from find_Some_mem[OF Some] have "e \<in> set els" "hasId e" by simp_all
  moreover from Some assms have "b = \<lparr>ph_objectId = idOf e, ph_type = hintOf e\<rparr>"
    by (simp add: getTitleAndBodyPlaceholders_snd scan_snd)
  ultimately show ?thesis using hasId_objectId[of e] by auto
next
  case None
  with assms have two: "2 \<le> length els" and id1: "hasId (els ! 1)"
    and b: "b = \<lparr>ph_objectId = idOf (els ! 1), ph_type = ''BODY''\<rparr>"
    by (auto simp: getTitleAndBodyPlaceholders_snd scan_snd split: if_splits)
  from two have "els ! 1 \<in> set els" by simp
  with b hasId_objectId[OF id1] show ?thesis by auto
qed

lemma none_placeholders: "getTitleAndBodyPlaceholders None = (None, None)"
  by (simp add: getTitleAndBodyPlaceholders_def)

lemma elementIds_mem:
  "pageElements p = Some els \<Longrightarrow> e \<in> set els \<Longrightarrow> objectId e = Some oid
     \<Longrightarrow> oid \<in> set (elementIds p)"
  by (force simp: elementIds_def)

lemma titleOps_target:
  "req \<in> set (titleOps ph txt) \<Longrightarrow> \<exists>t. ph = Some t \<and> textTarget req = Some (ph_objectId t)"
  by (cases ph) (auto simp: titleOps_def)

lemma bodyOps_target:
  "req \<in> set (bodyOps ph txt) \<Longrightarrow> \<exists>b. ph = Some b \<and> textTarget req = Some (ph_objectId b)"
  by (cases ph) (auto simp: bodyOps_def split: if_splits)

lemma contentOps_targets:
  assumes "req \<in> set (contentOps ss fs i)"
  shows "\<exists>oid. textTarget req = Some oid \<and> i + 1 < length fs
           \<and> oid \<in> set (elementIds (fs ! (i + 1)))"
proof (cases "pageElementsAt fs (i + 1)")
  case None
  with assms show ?thesis
    by (simp add: contentOps_def titleOps_def bodyOps_def none_placeholders)
next
  case (Some els)
  then have inrange: "i + 1 < length fs" and els: "pageElements (fs ! (i + 1)) = Some els"
    by (auto simp: pageElementsAt_def split: if_splits)
  from assms Some consider
    (t) t where "fst (getTitleAndBodyPlaceholders (Some els)) = Some t"
        "textTarget req = Some (ph_objectId t)"
  | (b) b where "snd (getTitleAndBodyPlaceholders (Some els)) = Some b"
        "textTarget req = Some (ph_objectId b)"
    by (auto simp: contentOps_def dest: titleOps_target bodyOps_target)
  then show ?thesis
  proof cases
    case t
    from title_in_elements[OF t(1)] obtain e where "e \<in> set els"
      "objectId e = Some (ph_objectId t)" by blast
    with t(2) inrange els show ?thesis
      by (auto intro: elementIds_mem)
  next
    case b
    from body_in_elements[OF b(1)] obtain e where "e \<in> set els"
      "objectId e = Some (ph_objectId b)" by blast
    with b(2) inrange els show ?thesis
      by (auto intro: elementIds_mem)
  qed
qed

lemma join_Cons_nonempty: "x \<noteq> [] \<Longrightarrow> join sep (x # xs) \<noteq> []"
  by (cases xs) auto

lemma join_bullets_nonempty: "bs \<noteq> [] \<Longrightarrow> join sep (map (\<lambda>b. bulletPrefix @ trim b) bs) \<noteq> []"
  by (cases bs) (auto simp: bulletPrefix_def join_Cons_nonempty)

lemma buildSlideBodyText_empty_iff:
  "buildSlideBodyText s = [] \<longleftrightarrow>
     blankField (subtitle s) \<and> blankField (body s) \<and> noBullets (bullets s)"
proof -
  have parts: "\<forall>p \<in> set (pushBullets (bullets s)
      (pushTrimmed (body s) (pushTrimmed (subtitle s) []))). p \<noteq> []"
    by (auto simp: pushBullets_def pushTrimmed_def join_bullets_nonempty split: option.splits)
  have empty: "pushBullets (bullets s) (pushTrimmed (body s) (pushTrimmed (subtitle s) [])) = []
      \<longleftrightarrow> blankField (subtitle s) \<and> blankField (body s) \<and> noBullets (bullets s)"
    by (auto simp: pushBullets_def pushTrimmed_def blankField_def noBullets_def
        split: option.splits)
  have "join sep ps = [] \<longleftrightarrow> ps = []" if "\<forall>p \<in> set ps. p \<noteq> []" for sep ps
    using that by (cases ps) (auto simp: join_Cons_nonempty)
  with parts empty show ?thesis
    by (simp add: buildSlideBodyText_def Let_def)
qed

lemma firstSlideRequests_eq: "firstSlideRequests t ss els = firstOps t ss els"
  by (simp add: firstSlideRequests_def firstOps_def firstTitleOf_def Let_def
      split: option.splits list.splits)



section \<open>Slides without content (C7)\<close>

text \<open>
  On \<open>aliasPage\<close> the element "t" is the title and, by the positional fallback, also the
  body. For a slide without content the composed body is empty, and the requests for
  the slide delete the text of "t" and insert the empty title: they work on the body
  element.
\<close>

theorem empty_body_counterexample:
  "buildSlideBodyText emptySlide = []
   \<and> getTitleAndBodyPlaceholders (pageElementsAt [titlePage, aliasPage, closingPage] 1)
       = (Some \<lparr>ph_objectId = ''t'', ph_type = ''TITLE''\<rparr>,
          Some \<lparr>ph_objectId = ''t'', ph_type = ''BODY''\<rparr>)
   \<and> fillContentSlide [emptySlide] [titlePage, aliasPage, closingPage] 0 []
       = [DeleteText ''t'', InsertText ''t'' [] 0]"
proof -
  have phs: "getTitleAndBodyPlaceholders (pageElementsAt [titlePage, aliasPage, closingPage] 1)
       = (Some \<lparr>ph_objectId = ''t'', ph_type = ''TITLE''\<rparr>,
          Some \<lparr>ph_objectId = ''t'', ph_type = ''BODY''\<rparr>)"
    by (simp add: pageElementsAt_def aliasPage_def getTitleAndBodyPlaceholders_def
        scanElement_def Let_def)
  have empty: "buildSlideBodyText emptySlide = []"
    by (simp add: buildSlideBodyText_def emptySlide_def pushTrimmed_def pushBullets_def)
  have "fillContentSlide [emptySlide] [titlePage, aliasPage, closingPage] 0 []
       = [DeleteText ''t'', InsertText ''t'' [] 0]"
    using phs empty by (simp add: fillContentSlide_def Let_def slideAt_def emptySlide_def)
  with phs empty show ?thesis by simp
qed

text \<open>
  C7 (amended). The composed body text of a slide is empty exactly when subtitle and
  body are blank and there are no bullets. For every content slide whose composed body
  text is empty, the requests added for the slide are exactly the title requests (none
  without title target): the body branch adds no delete-text and no insert-text, and
  every request added works on the resolved title element. So the body element is left
  untouched unless it is also the title target.
\<close>

theorem empty_body_untouched:
  "(buildSlideBodyText s = [] \<longleftrightarrow>
      blankField (subtitle s) \<and> blankField (body s) \<and> noBullets (bullets s))
   \<and> (buildSlideBodyText (slideAt ss i) = [] \<longrightarrow>
        fillContentSlide ss fs i rs
          = rs @ titleOps (fst (getTitleAndBodyPlaceholders (pageElementsAt fs (i + 1))))
                   (trimmedTitle (slideAt ss i))
        \<and> (\<forall>req \<in> set (titleOps (fst (getTitleAndBodyPlaceholders (pageElementsAt fs (i + 1))))
                          (trimmedTitle (slideAt ss i))).
             \<exists>t. fst (getTitleAndBodyPlaceholders (pageElementsAt fs (i + 1))) = Some t
                \<and> textTarget req = Some (ph_objectId t)))"
  by (auto simp: buildSlideBodyText_empty_iff[symmetric] fillContentSlide_eq contentOps_def
      bodyOps_def dest: titleOps_target split: option.splits)

text \<open>
  A slide without content on the content page of \<open>template3\<close>.
\<close>

theorem empty_body_untouched_witness:
  "fillContentSlide [emptySlide] template3 0 []
     = [DeleteText ''p1_t'', InsertText ''p1_t'' [] 0]"
  using empty_body_untouched[of emptySlide "[emptySlide]" 0 template3 "[]"]
  by (simp add: slideAt_def emptySlide_def blankField_def noBullets_def template3_def
      pageElementsAt_def contentPage_def getTitleAndBodyPlaceholders_def scanElement_def
      Let_def titleOps_def trimmedTitle_def)

section \<open>The title page (C3)\<close>

text \<open>
  Without template, one slide with title "A" and body "x" on a first page with a title
  and a subtitle placeholder: the batch inserts "x" into the body element "s0" of the
  first page.
\<close>

theorem title_page_body_counterexample:
  "snd (inlinePlaceholders titleElements) = Some ''s0''
   \<and> createPresentationFromContent demoEnv (remoteOf [titlePage] [])
        (deckOf [textSlide ''A'' ''x'']) False
      = (Inr \<lparr>presentationId = ''doc'',
               editUrl = ''https://docs.google.com/presentation/d/doc/edit'',
               out_title = js ''Deck''\<rparr>,
         [PresentationsCreate (js ''Deck''), PresentationsGet ''doc'',
          BatchUpdate ''doc'' [InsertText ''t0'' (js ''A'') 0, InsertText ''s0'' (js ''x'') 0]])"
proof -
  have phs: "inlinePlaceholders titleElements = (Some ''t0'', Some ''s0'')"
    by (simp add: inlinePlaceholders_def titleElements_def scanInline_def Let_def)
  have body: "buildSlideBodyText (textSlide ''A'' ''x'') = js ''x''"
    by (simp add: buildSlideBodyText_def textSlide_def pushTrimmed_def pushBullets_def
        trim_def isWhiteSpace_def)
  have reqs: "blankRequests (js ''Deck'') [textSlide ''A'' ''x''] titleElements
      = [InsertText ''t0'' (js ''A'') 0, InsertText ''s0'' (js ''x'') 0]"
    using phs body
    by (simp add: blankRequests_eq firstSlideRequests_eq firstOps_def firstTitleOf_def
        slideAt_def)
       (simp add: textSlide_def trim_def isWhiteSpace_def)
  have els: "pageElementsAt (slidesOf (Some [titlePage])) 0 = Some titleElements"
    by (simp add: pageElementsAt_def slidesOf_def titlePage_def titleElements_def)
  show ?thesis
    using phs reqs els
    by (simp add: createPresentationFromContent_def createBlank_def remoteOf_def deckOf_def
        Let_def mkEditUrl_def)
qed

text \<open>
  C3 (amended). In template mode the fill requests are the requests for the title page
  followed by those for the content slides. The title page gets nothing, or delete-text
  and insert-text of the presentation title on its resolved title element; every other
  fill request works on an element of one of the pages 1 to \<open>N\<close>. Without template
  the first page serves the first slide: it gets an insert of the first title on the
  title element and an insert of the first slide's composed body on the body element,
  when that element is resolved and the body is not empty.
\<close>

theorem title_page_fill:
  "fillRequestsOf t ss fs
     = titleOps (fst (getTitleAndBodyPlaceholders (pageElementsAt fs 0))) t
         @ concat (map (contentOps ss fs) [0..<length ss])
   \<and> (\<forall>i < length ss. \<forall>req \<in> set (contentOps ss fs i).
         \<exists>oid. textTarget req = Some oid \<and> i + 1 < length fs
               \<and> oid \<in> set (elementIds (fs ! (i + 1))))
   \<and> firstSlideRequests t ss els = firstOps t ss els"
  using contentOps_targets by (simp add: fillRequestsOf_eq firstSlideRequests_eq)

text \<open>
  One slide on \<open>template3\<close>.
\<close>

theorem title_page_fill_witness:
  "fillRequestsOf (js ''Deck'') [textSlide ''A'' ''x''] template3
     = [DeleteText ''t0'', InsertText ''t0'' (js ''Deck'') 0,
        DeleteText ''p1_t'', InsertText ''p1_t'' (js ''A'') 0,
        DeleteText ''p1_b'', InsertText ''p1_b'' (js ''x'') 0]"
proof -
  have body: "buildSlideBodyText (textSlide ''A'' ''x'') = js ''x''"
    by (simp add: buildSlideBodyText_def textSlide_def pushTrimmed_def pushBullets_def
        trim_def isWhiteSpace_def)
  have t: "trimmedTitle (textSlide ''A'' ''x'') = js ''A''"
    by (simp add: trimmedTitle_def textSlide_def trim_def isWhiteSpace_def)
  have p0: "getTitleAndBodyPlaceholders (pageElementsAt template3 0)
      = (Some \<lparr>ph_objectId = ''t0'', ph_type = ''TITLE''\<rparr>,
         Some \<lparr>ph_objectId = ''s0'', ph_type = ''SUBTITLE''\<rparr>)"
    by (simp add: pageElementsAt_def template3_def titlePage_def getTitleAndBodyPlaceholders_def
        scanElement_def Let_def)
  have p1: "getTitleAndBodyPlaceholders (pageElementsAt template3 (Suc 0))
      = (Some \<lparr>ph_objectId = ''p1_t'', ph_type = ''TITLE''\<rparr>,
         Some \<lparr>ph_objectId = ''p1_b'', ph_type = ''BODY''\<rparr>)"
    by (simp add: pageElementsAt_def template3_def contentPage_def getTitleAndBodyPlaceholders_def
        scanElement_def Let_def)
  show ?thesis
    using title_page_fill[of "js ''Deck''" "[textSlide ''A'' ''x'']" template3 "[]"] body t p0 p1
    by (simp add: contentOps_def titleOps_def bodyOps_def slideAt_def)
qed

section \<open>The content pages (C8)\<close>




section \<open>The pages after the structural batch\<close>

lemma presentIds_append: "presentIds (xs @ ys) = presentIds xs @ presentIds ys"
  by (induction xs) (auto split: option.splits)

lemma presentIds_mem:
  "p \<in> set ps \<Longrightarrow> page_objectId p = Some oid \<Longrightarrow> oid \<noteq> [] \<Longrightarrow> oid \<in> set (presentIds ps)"
  by (induction ps) (auto split: option.splits)

lemma presentIds_length:
  "\<forall>p \<in> set ps. truthy (page_objectId p) \<Longrightarrow> length (presentIds ps) = length ps"
proof (induction ps)
  case Nil
  show ?case by simp
next
  case (Cons p ps)
  then show ?case by (cases "page_objectId p") auto
qed

lemma presentIds_nonempty: "[] \<notin> set (presentIds ps)"
  by (induction ps) (auto split: option.splits)

lemma duplicatePage_Some:
  assumes "oid \<in> set (presentIds ps)"
  shows "\<exists>ps'. duplicatePage c oid ps = Some ps' \<and> length ps' = length ps + 1
           \<and> mset (presentIds ps) \<subseteq># mset (presentIds ps')"
  using assms
proof (induction ps)
  case Nil
  then show ?case by simp
next
  case (Cons p ps)
  show ?case
  proof (cases "page_objectId p = Some oid")
    case True
    then show ?thesis by (auto split: option.splits)
  next
    case False
    with Cons.prems have "oid \<in> set (presentIds ps)"
      by (auto split: option.splits if_splits)
    from Cons.IH[OF this] obtain ps' where "duplicatePage c oid ps = Some ps'"
      "length ps' = length ps + 1" "mset (presentIds ps) \<subseteq># mset (presentIds ps')"
      by blast
    with False show ?thesis by (auto split: option.splits)
  qed
qed

lemma deletePage_Some:
  assumes "oid \<in> set (presentIds ps)"
  shows "\<exists>ps'. deletePage oid ps = Some ps' \<and> length ps' + 1 = length ps
           \<and> mset (presentIds ps') = mset (presentIds ps) - {#oid#}"
  using assms
proof (induction ps)
  case Nil
  then show ?case by simp
next
  case (Cons p ps)
  show ?case
  proof (cases "page_objectId p = Some oid")
    case True
    with Cons.prems presentIds_nonempty[of "p # ps"] show ?thesis
      by (auto split: option.splits)
  next
    case False
    with Cons.prems have mem: "oid \<in> set (presentIds ps)"
      by (auto split: option.splits if_splits)
    from Cons.IH[OF this] obtain ps' where "deletePage oid ps = Some ps'"
      "length ps' + 1 = length ps" "mset (presentIds ps') = mset (presentIds ps) - {#oid#}"
      by blast
    with False mem show ?thesis by (auto split: option.splits)
  qed
qed

lemma applyBatch_append:
  "applyBatch c (xs @ ys) ps =
     (case applyBatch c xs ps of None \<Rightarrow> None | Some ps' \<Rightarrow> applyBatch c ys ps')"
  by (induction xs arbitrary: ps) (auto split: option.splits)

lemma applyBatch_duplicates:
  assumes "lid \<in> set (presentIds ps)"
  shows "\<exists>ps'. applyBatch c (replicate k (DuplicateObject lid)) ps = Some ps'
           \<and> length ps' = length ps + k \<and> mset (presentIds ps) \<subseteq># mset (presentIds ps')"
  using assms
proof (induction k arbitrary: ps)
  case 0
  then show ?case by simp
next
  case (Suc k)
  from duplicatePage_Some[OF Suc.prems, of "c ps"] obtain ps1 where
    one: "duplicatePage (c ps) lid ps = Some ps1" "length ps1 = length ps + 1"
      "mset (presentIds ps) \<subseteq># mset (presentIds ps1)"
    by blast
  with Suc.prems have "lid \<in> set (presentIds ps1)"
    by (meson mset_subset_eqD in_multiset_in_set)
  from Suc.IH[OF this] obtain ps' where
    rest: "applyBatch c (replicate k (DuplicateObject lid)) ps1 = Some ps'"
      "length ps' = length ps1 + k" "mset (presentIds ps1) \<subseteq># mset (presentIds ps')"
    by blast
  from one rest show ?case
    by (auto intro: subset_mset.order_trans)
qed

lemma applyBatch_deletes:
  assumes "mset ds \<subseteq># mset (presentIds ps)"
  shows "\<exists>ps'. applyBatch c (map DeleteObject ds) ps = Some ps'
           \<and> length ps' + length ds = length ps"
  using assms
proof (induction ds arbitrary: ps)
  case Nil
  then show ?case by simp
next
  case (Cons d ds)
  then have "d \<in> set (presentIds ps)"
    by (meson mset_subset_eqD in_multiset_in_set list.set_intros(1))
  from deletePage_Some[OF this] obtain ps1 where
    one: "deletePage d ps = Some ps1" "length ps1 + 1 = length ps"
      "mset (presentIds ps1) = mset (presentIds ps) - {#d#}"
    by blast
  from Cons.prems one(3) have "mset ds \<subseteq># mset (presentIds ps1)"
    by (simp add: insert_subset_eq_iff)
  from Cons.IH[OF this] obtain ps' where
    "applyBatch c (map DeleteObject ds) ps1 = Some ps'" "length ps' + length ds = length ps1"
    by blast
  with one show ?case by auto
qed

lemma middle_ids_subset:
  assumes "3 \<le> length ts"
  shows "mset (presentIds (butlast (drop 2 ts))) \<subseteq># mset (presentIds ts)"
proof -
  from assms have "drop 2 ts \<noteq> []" by simp
  then have "drop 2 ts = butlast (drop 2 ts) @ [last (drop 2 ts)]"
    by (rule append_butlast_last_id[symmetric])
  then have "presentIds (drop 2 ts)
      = presentIds (butlast (drop 2 ts)) @ presentIds [last (drop 2 ts)]"
    using presentIds_append[of "butlast (drop 2 ts)" "[last (drop 2 ts)]"] by simp
  moreover have "presentIds ts = presentIds (take 2 ts) @ presentIds (drop 2 ts)"
    using presentIds_append[of "take 2 ts" "drop 2 ts"] by simp
  ultimately show ?thesis by simp
qed

lemma applyBatch_structural:
  assumes "3 \<le> length ts" "page_objectId (ts ! 1) = Some lid" "lid \<noteq> []" "1 \<le> N"
    "\<forall>p \<in> set (butlast (drop 2 ts)). truthy (page_objectId p)"
  shows "\<exists>fs. applyBatch c (structuralRequests lid N ts) ts = Some fs \<and> length fs = N + 2"
proof -
  let ?ds = "presentIds (butlast (drop 2 ts))"
  have "ts ! 1 \<in> set ts" using assms(1) by simp
  then have "lid \<in> set (presentIds ts)"
    using assms(2,3) by (rule presentIds_mem)
  from applyBatch_duplicates[OF this, of c "N - 1"] obtain ps1 where
    dup: "applyBatch c (replicate (N - 1) (DuplicateObject lid)) ts = Some ps1"
      "length ps1 = length ts + (N - 1)" "mset (presentIds ts) \<subseteq># mset (presentIds ps1)"
    by blast
  have "mset ?ds \<subseteq># mset (presentIds ps1)"
    using middle_ids_subset[OF assms(1)] dup(3) by (rule subset_mset.order_trans)
  from applyBatch_deletes[OF this, of c] obtain fs where
    del: "applyBatch c (map DeleteObject ?ds) ps1 = Some fs" "length fs + length ?ds = length ps1"
    by blast
  have "length ?ds = length ts - 3"
    using presentIds_length[OF assms(5)] by simp
  with dup(2) del(2) assms(1,4) have "length fs = N + 2" by simp
  with dup(1) del(1) show ?thesis
    by (simp add: structuralRequests_eq applyBatch_append)
qed

section \<open>The check after restructuring (C1)\<close>

text \<open>
  One slide and \<open>template4gap\<close>, whose page at index 2 has no identifier. No structural
  request is built, so no structural batch is sent and the document keeps its four
  pages, one more than \<open>N + 2\<close>. The second read returns them and the tool succeeds.
\<close>

theorem restructure_exact_counterexample:
  "length (slides (deckOf [textSlide ''A'' ''x''])) = 1
   \<and> length template4gap = 4
   \<and> structuralRequests ''p1'' 1 template4gap = []
   \<and> applyBatch demoCopy (structuralRequests ''p1'' 1 template4gap) template4gap
       = Some template4gap
   \<and> createFromTemplate demoEnv (remoteOf template4gap template4gap)
        (deckOf [textSlide ''A'' ''x''])
       = (Inr \<lparr>presentationId = ''doc'',
               editUrl = ''https://docs.google.com/presentation/d/doc/edit'',
               out_title = js ''Deck''\<rparr>,
          [FilesCopy ''tpl'' (js ''Deck''), PresentationsGet ''doc'', PresentationsGet ''doc'',
           BatchUpdate ''doc''
             [DeleteText ''t0'', InsertText ''t0'' (js ''Deck'') 0,
              DeleteText ''p1_t'', InsertText ''p1_t'' (js ''A'') 0,
              DeleteText ''p1_b'', InsertText ''p1_b'' (js ''x'') 0]])"
proof -
  have reqs: "structuralRequests ''p1'' 1 template4gap = []"
    by (simp add: structuralRequests_eq template4gap_def titlePage_def closingPage_def
        contentPage_def)
  have body: "buildSlideBodyText (textSlide ''A'' ''x'') = js ''x''"
    by (simp add: buildSlideBodyText_def textSlide_def pushTrimmed_def pushBullets_def
        trim_def isWhiteSpace_def)
  have t: "trimmedTitle (textSlide ''A'' ''x'') = js ''A''"
    by (simp add: trimmedTitle_def textSlide_def trim_def isWhiteSpace_def)
  have p0: "getTitleAndBodyPlaceholders (pageElementsAt template4gap 0)
      = (Some \<lparr>ph_objectId = ''t0'', ph_type = ''TITLE''\<rparr>,
         Some \<lparr>ph_objectId = ''s0'', ph_type = ''SUBTITLE''\<rparr>)"
    by (simp add: pageElementsAt_def template4gap_def titlePage_def
        getTitleAndBodyPlaceholders_def scanElement_def Let_def)
  have p1: "getTitleAndBodyPlaceholders (pageElementsAt template4gap (Suc 0))
      = (Some \<lparr>ph_objectId = ''p1_t'', ph_type = ''TITLE''\<rparr>,
         Some \<lparr>ph_objectId = ''p1_b'', ph_type = ''BODY''\<rparr>)"
    by (simp add: pageElementsAt_def template4gap_def contentPage_def
        getTitleAndBodyPlaceholders_def scanElement_def Let_def)
  have fill: "fillRequestsOf (js ''Deck'') [textSlide ''A'' ''x''] template4gap
      = [DeleteText ''t0'', InsertText ''t0'' (js ''Deck'') 0,
         DeleteText ''p1_t'', InsertText ''p1_t'' (js ''A'') 0,
         DeleteText ''p1_b'', InsertText ''p1_b'' (js ''x'') 0]"
    using body t p0 p1
    by (simp add: fillRequestsOf_eq contentOps_def titleOps_def bodyOps_def slideAt_def)
  have len: "length template4gap = 4"
    by (simp add: template4gap_def)
  have lay: "page_objectId (template4gap ! 1) = Some ''p1''"
    by (simp add: template4gap_def contentPage_def)
  have run: "createFromTemplate demoEnv (remoteOf template4gap template4gap)
        (deckOf [textSlide ''A'' ''x''])
       = (Inr \<lparr>presentationId = ''doc'',
               editUrl = ''https://docs.google.com/presentation/d/doc/edit'',
               out_title = js ''Deck''\<rparr>,
          [FilesCopy ''tpl'' (js ''Deck''), PresentationsGet ''doc'', PresentationsGet ''doc'',
           BatchUpdate ''doc''
             [DeleteText ''t0'', InsertText ''t0'' (js ''Deck'') 0,
              DeleteText ''p1_t'', InsertText ''p1_t'' (js ''A'') 0,
              DeleteText ''p1_b'', InsertText ''p1_b'' (js ''x'') 0]])"
    using createFromTemplate_run[of "remoteOf template4gap template4gap" "''doc''"
      "Some template4gap" "''p1''" "deckOf [textSlide ''A'' ''x'']" "Some template4gap" demoEnv]
      reqs fill len lay
    by (simp add: remoteOf_def deckOf_def slidesOf_def batchCall_def templateIdOf_def
        mkEditUrl_def)
  from reqs len run show ?thesis by (simp add: deckOf_def)
qed

text \<open>
  C1 (amended). In template mode, once the template is provisioned and the structural
  batch (if any) is accepted, the tool reads the page list again. For a deck of at least
  one slide and a template whose pages at the indices 2 to \<open>P - 2\<close> all have an
  identifier, a remote that applies the batch returns exactly \<open>N + 2\<close> pages. The tool
  itself rejects only fewer: if the second read yields fewer than \<open>N + 2\<close> pages, the
  run fails with the structure error and its calls end with that read, so no fill batch
  is issued; whenever the run succeeds, the read yielded at least \<open>N + 2\<close> pages; and
  with at least \<open>N + 2\<close> pages (and a fill batch that is not rejected) the run succeeds.
\<close>

theorem restructure_check:
  assumes "copyRes r = Inr (Some pid)" "pid \<noteq> []" "getRes r = Inr s1"
    "3 \<le> length (slidesOf s1)" "page_objectId (slidesOf s1 ! 1) = Some lid" "lid \<noteq> []"
    "batchRes r = None \<or> structuralRequests lid (length (slides args)) (slidesOf s1) = []"
    "getRes2 r = Inr s2"
  shows "(1 \<le> length (slides args)
          \<and> (\<forall>p \<in> set (butlast (drop 2 (slidesOf s1))). truthy (page_objectId p))
          \<and> s2 = applyBatch c (structuralRequests lid (length (slides args)) (slidesOf s1))
                   (slidesOf s1) \<longrightarrow>
            length (slidesOf s2) = length (slides args) + 2)
       \<and> (length (slidesOf s2) < length (slides args) + 2 \<longrightarrow>
            createFromTemplate ev r args =
              (Inl RestructuringNotEnoughSlides,
               [FilesCopy (templateIdOf ev args) (deck_title args), PresentationsGet pid]
                 @ batchCall pid (structuralRequests lid (length (slides args)) (slidesOf s1))
                 @ [PresentationsGet pid])
            \<and> spec_StructureError RestructuringNotEnoughSlides)
       \<and> (\<forall>out. fst (createFromTemplate ev r args) = Inr out \<longrightarrow>
            length (slides args) + 2 \<le> length (slidesOf s2))
       \<and> (length (slides args) + 2 \<le> length (slidesOf s2) \<and> fillRes r = None \<longrightarrow>
            createFromTemplate ev r args =
              (Inr \<lparr>presentationId = pid, editUrl = mkEditUrl pid, out_title = deck_title args\<rparr>,
               [FilesCopy (templateIdOf ev args) (deck_title args), PresentationsGet pid]
                 @ batchCall pid (structuralRequests lid (length (slides args)) (slidesOf s1))
                 @ [PresentationsGet pid]
                 @ batchCall pid (fillRequestsOf (deck_title args) (slides args) (slidesOf s2))))"
proof -
  note planned = createFromTemplate_planned[OF assms(1-7), of ev]
  have exact: "1 \<le> length (slides args)
          \<and> (\<forall>p \<in> set (butlast (drop 2 (slidesOf s1))). truthy (page_objectId p))
          \<and> s2 = applyBatch c (structuralRequests lid (length (slides args)) (slidesOf s1))
                   (slidesOf s1) \<longrightarrow>
            length (slidesOf s2) = length (slides args) + 2"
  proof (intro impI, elim conjE)
    assume valid: "1 \<le> length (slides args)"
      and ids: "\<forall>p \<in> set (butlast (drop 2 (slidesOf s1))). truthy (page_objectId p)"
      and applied: "s2 = applyBatch c (structuralRequests lid (length (slides args))
        (slidesOf s1)) (slidesOf s1)"
    from applyBatch_structural[OF assms(4-6) valid ids, of c] applied
    show "length (slidesOf s2) = length (slides args) + 2"
      by (auto simp: slidesOf_def)
  qed
  have short: "length (slidesOf s2) < length (slides args) + 2 \<longrightarrow>
            createFromTemplate ev r args =
              (Inl RestructuringNotEnoughSlides,
               [FilesCopy (templateIdOf ev args) (deck_title args), PresentationsGet pid]
                 @ batchCall pid (structuralRequests lid (length (slides args)) (slidesOf s1))
                 @ [PresentationsGet pid])
            \<and> spec_StructureError RestructuringNotEnoughSlides"
    using planned restructured_short[OF assms(8)] by (simp add: spec_StructureError_def)
  have succ: "\<forall>out. fst (createFromTemplate ev r args) = Inr out \<longrightarrow>
            length (slides args) + 2 \<le> length (slidesOf s2)"
    using createFromTemplate_Inr[of ev r args] assms(8) by auto
  have full: "length (slides args) + 2 \<le> length (slidesOf s2) \<and> fillRes r = None \<longrightarrow>
            createFromTemplate ev r args =
              (Inr \<lparr>presentationId = pid, editUrl = mkEditUrl pid, out_title = deck_title args\<rparr>,
               [FilesCopy (templateIdOf ev args) (deck_title args), PresentationsGet pid]
                 @ batchCall pid (structuralRequests lid (length (slides args)) (slidesOf s1))
                 @ [PresentationsGet pid]
                 @ batchCall pid (fillRequestsOf (deck_title args) (slides args) (slidesOf s2)))"
    using createFromTemplate_run[OF assms(1-8), of ev] by simp
  from exact short succ full show ?thesis by blast
qed

text \<open>
  Two slides on \<open>template3\<close> with a remote that applies the batch: four pages. One
  slide and a second read that returns two pages: the structure error.
\<close>

theorem restructure_check_witness:
  "getRes2 appliedRemote = Inr (applyBatch demoCopy
        (structuralRequests ''p1'' (length (slides twoSlideDeck)) template3) template3)
   \<and> length (slides twoSlideDeck) = 2
   \<and> length (slidesOf (applyBatch demoCopy
        (structuralRequests ''p1'' (length (slides twoSlideDeck)) template3) template3))
       = length (slides twoSlideDeck) + 2
   \<and> createFromTemplate demoEnv (remoteOf template3 [titlePage, closingPage])
       (deckOf [textSlide ''A'' ''x'']) =
     (Inl RestructuringNotEnoughSlides,
      [FilesCopy ''tpl'' (js ''Deck''), PresentationsGet ''doc'', PresentationsGet ''doc''])"
proof -
  let ?s2 = "applyBatch demoCopy
        (structuralRequests ''p1'' (length (slides twoSlideDeck)) template3) template3"
  have h1: "copyRes appliedRemote = Inr (Some ''doc'')"
    and h3: "getRes appliedRemote = Inr (Some template3)"
    and h7: "batchRes appliedRemote = None
        \<or> structuralRequests ''p1'' (length (slides twoSlideDeck)) (slidesOf (Some template3)) = []"
    and h8: "getRes2 appliedRemote = Inr ?s2"
    by (simp_all add: appliedRemote_def remoteOf_def)
  have h2: "''doc'' \<noteq> []" and h6: "''p1'' \<noteq> []" by simp_all
  have h4: "3 \<le> length (slidesOf (Some template3))"
    and h5: "page_objectId (slidesOf (Some template3) ! 1) = Some ''p1''"
    by (simp_all add: slidesOf_def template3_def contentPage_def)
  have valid: "1 \<le> length (slides twoSlideDeck)"
    by (simp add: twoSlideDeck_def deckOf_def)
  have ids: "\<forall>p \<in> set (butlast (drop 2 (slidesOf (Some template3)))). truthy (page_objectId p)"
    by (simp add: slidesOf_def template3_def)
  have exact: "length (slidesOf ?s2) = length (slides twoSlideDeck) + 2"
    using restructure_check[OF h1 h2 h3 h4 h5 h6 h7 h8, of demoCopy demoEnv] valid ids
    by (simp add: slidesOf_def)
  have short: "createFromTemplate demoEnv (remoteOf template3 [titlePage, closingPage])
       (deckOf [textSlide ''A'' ''x'']) =
     (Inl RestructuringNotEnoughSlides,
      [FilesCopy ''tpl'' (js ''Deck''), PresentationsGet ''doc'', PresentationsGet ''doc''])"
    using restructure_check[of "remoteOf template3 [titlePage, closingPage]" "''doc''"
      "Some template3" "''p1''" "deckOf [textSlide ''A'' ''x'']" "Some [titlePage, closingPage]"
      demoCopy demoEnv]
    by (simp add: remoteOf_def template3_def deckOf_def slidesOf_def contentPage_def
      structuralRequests_eq batchCall_def templateIdOf_def titlePage_def closingPage_def)
  have two: "length (slides twoSlideDeck) = 2"
    by (simp add: twoSlideDeck_def deckOf_def)
  from h8 two exact short show ?thesis by simp
qed

end
